theory Spec2Isabelle
  imports Main "HOL-Library.Word"
begin

section \<open>JavaScript strings and values\<close>

text \<open>
  A JavaScript string is a sequence of UTF-16 code units. Literals of the script that are
  plain ASCII are written with \<open>str\<close>; other literals are given by their code units.
\<close>

type_synonym jsstring = "16 word list"

definition str :: "string \<Rightarrow> jsstring" where
  "str cs = map of_char cs"

text \<open>
  \<open>String.prototype.trim\<close> removes leading and trailing WhiteSpace and LineTerminator
  code units (ECMAScript: TAB, VT, FF, SP, NBSP, ZWNBSP, the Zs category, LF, CR, LS, PS).
\<close>

definition is_whitespace :: "16 word \<Rightarrow> bool" where
  "is_whitespace c =
     (c \<in> {0x0009, 0x000A, 0x000B, 0x000C, 0x000D, 0x0020, 0x00A0, 0x1680,
            0x2028, 0x2029, 0x202F, 0x205F, 0x3000, 0xFEFF}
      \<or> (0x2000 \<le> c \<and> c \<le> 0x200A))"

definition trim :: "jsstring \<Rightarrow> jsstring" where
  "trim s = rev (dropWhile is_whitespace (rev (dropWhile is_whitespace s)))"

text \<open>\<open>s.split(sep)\<close> for a separator of one code unit.\<close>

fun js_split :: "16 word \<Rightarrow> jsstring \<Rightarrow> jsstring list" where
  "js_split sep [] = [[]]"
| "js_split sep (c # cs) =
     (if c = sep then [] # js_split sep cs
      else (case js_split sep cs of [] \<Rightarrow> [[c]] | p # ps \<Rightarrow> (c # p) # ps))"

text \<open>The decimal digits of a non-negative integer, as a template literal renders it.\<close>

fun decimal :: "nat \<Rightarrow> jsstring" where
  "decimal n =
     (if n < 10 then [of_nat (48 + n)]
      else decimal (n div 10) @ [of_nat (48 + n mod 10)])"

declare decimal.simps [simp del]

text \<open>
  The code points of a string (ECMAScript CodePointAt): a leading surrogate followed by a
  trailing surrogate is one supplementary code point, every other code unit is its own
  code point.
\<close>

fun code_points :: "jsstring \<Rightarrow> nat list" where
  "code_points [] = []"
| "code_points [c] = [unat c]"
| "code_points (c # d # cs) =
     (if 0xD800 \<le> c \<and> c \<le> 0xDBFF \<and> 0xDC00 \<le> d \<and> d \<le> 0xDFFF
      then (0x10000 + (unat c - 0xD800) * 0x400 + (unat d - 0xDC00)) # code_points cs
      else unat c # code_points (d # cs))"

text \<open>
  Values as \<open>JSON.parse\<close> and property reads produce them. A number is kept as the text
  that ToString gives for it, so that no floating-point arithmetic is modelled; an object
  is the list of its own properties in source order.
\<close>

datatype jsval =
    JUndefined
  | JNull
  | JBool bool
  | JNum jsstring
  | JStr jsstring
  | JArr "jsval list"
  | JObj "(jsstring \<times> jsval) list"

datatype js_error =
    Error jsstring
  | TypeError jsstring
  | SyntaxError jsstring
  | DOMException jsstring jsstring

fun message :: "js_error \<Rightarrow> jsstring" where
  "message (Error m) = m"
| "message (TypeError m) = m"
| "message (SyntaxError m) = m"
| "message (DOMException n m) = m"

text \<open>
  ToString, as a template literal or a DOM string attribute applies it. An object parsed
  from JSON converts to \<open>[object Object]\<close> unless it has an own property
  \<open>toString\<close>, which is then not callable, and the conversion throws. An array joins
  its elements with commas, \<open>null\<close> and \<open>undefined\<close> elements giving the empty
  string.
\<close>

fun to_string :: "jsval \<Rightarrow> js_error + jsstring"
  and join_elements :: "jsval list \<Rightarrow> js_error + jsstring" where
  "to_string JUndefined = Inr (str ''undefined'')"
| "to_string JNull = Inr (str ''null'')"
| "to_string (JBool b) = Inr (if b then str ''true'' else str ''false'')"
| "to_string (JNum n) = Inr n"
| "to_string (JStr s) = Inr s"
| "to_string (JArr vs) = join_elements vs"
| "to_string (JObj kvs) =
     (if str ''toString'' \<in> fst ` set kvs
      then Inl (TypeError (str ''Cannot convert object to primitive value''))
      else Inr (str ''[object Object]''))"
| "join_elements [] = Inr []"
| "join_elements (v # vs) =
     (case (if v = JUndefined \<or> v = JNull then Inr [] else to_string v) of
        Inl e \<Rightarrow> Inl e
      | Inr s \<Rightarrow>
          (case join_elements vs of
             Inl e \<Rightarrow> Inl e
           | Inr t \<Rightarrow> Inr (if vs = [] then s else s @ 0x002C # t)))"

text \<open>Truthiness (ToBoolean).\<close>

fun truthy :: "jsval \<Rightarrow> bool" where
  "truthy JUndefined = False"
| "truthy JNull = False"
| "truthy (JBool b) = b"
| "truthy (JNum n) = (n \<noteq> str ''0'' \<and> n \<noteq> str ''NaN'')"
| "truthy (JStr s) = (s \<noteq> [])"
| "truthy (JArr vs) = True"
| "truthy (JObj kvs) = True"

text \<open>
  Reading a property \<open>v.k\<close>, for the keys this script reads (\<open>answer\<close>,
  \<open>audio_url\<close>, \<open>language\<close>, \<open>id\<close>, \<open>text\<close>, \<open>documents\<close>,
  \<open>message\<close>), none of which a built-in prototype defines: on \<open>undefined\<close> and \<open>null\<close> the read throws, on a
  parsed object it gives the own property (the last one, where JSON repeats a key), and
  \<open>undefined\<close> otherwise.
\<close>

fun get_prop :: "jsval \<Rightarrow> string \<Rightarrow> js_error + jsval" where
  "get_prop JUndefined k =
     Inl (TypeError (str ''Cannot read properties of undefined (reading '' @ str k @ str '')''))"
| "get_prop JNull k =
     Inl (TypeError (str ''Cannot read properties of null (reading '' @ str k @ str '')''))"
| "get_prop (JObj kvs) k =
     Inr (case map_of (rev kvs) (str k) of None \<Rightarrow> JUndefined | Some v \<Rightarrow> v)"
| "get_prop v k = Inr JUndefined"

text \<open>\<open>v.substring(0, n)\<close>: defined on strings only.\<close>

fun substring0 :: "jsval \<Rightarrow> nat \<Rightarrow> js_error + jsstring" where
  "substring0 (JStr s) n = Inr (take n s)"
| "substring0 JUndefined n =
     Inl (TypeError (str ''Cannot read properties of undefined (reading substring)''))"
| "substring0 JNull n =
     Inl (TypeError (str ''Cannot read properties of null (reading substring)''))"
| "substring0 v n = Inl (TypeError (str ''substring is not a function''))"

section \<open>The network\<close>

text \<open>
  What \<open>fetch\<close> sends is recorded in the state; what comes back is a parameter of each
  operation: the promise rejects (transport failure), or resolves to a response with a
  status whose body \<open>response.json()\<close> either parses or rejects. An operation is run
  from its request to the handling of the answer in one step: the events that the browser
  may handle while the operation waits are taken to come before or after it.
\<close>

datatype blob = Blob "8 word list list" jsstring

datatype req_body = NoBody | JsonBody jsval | FormBody jsstring blob jsstring

record request =
  req_method :: string
  req_url :: jsstring
  req_body :: req_body

datatype json_body = NotJson js_error | Json jsval

datatype fetch_result = Rejected js_error | Response nat json_body

text \<open>\<open>response.ok\<close>: the status is one of 200 to 299.\<close>

definition ok :: "nat \<Rightarrow> bool" where
  "ok status = (200 \<le> status \<and> status \<le> 299)"

definition API_BASE_URL :: jsstring where
  "API_BASE_URL = str ''http://localhost:8000''"

section \<open>Page state\<close>

text \<open>
  The module-level variables of the script and the parts of the page it reads and writes.
  The markup is not part of the script: every element the script looks up is taken to
  exist. Time stamps of messages and log entries are left out.
\<close>

datatype sender = User | Bot | System

record message_div =
  className :: sender
  senderName :: jsstring
  content :: jsstring
  malayalam_text :: bool

datatype log_type = info | error

record log_entry =
  log_class :: log_type
  textContent :: jsstring

record document_item =
  doc_number :: nat
  doc_en :: jsstring
  doc_ml :: "jsstring option"
  doc_manglish :: "jsstring option"

record document_form =
  englishText :: jsstring
  malayalamText :: jsstring
  manglishText :: jsstring

datatype console_arg = NoArg | ErrorArg js_error | StringArg jsstring

datatype console_level = console_log | console_warn | console_error

record console_entry =
  level :: console_level
  label :: jsstring
  arg :: console_arg

text \<open>
  The browser's speech recogniser (Web Speech API): \<open>start()\<close> on a recogniser that
  has been started and has not yet fired its \<open>end\<close> event throws InvalidStateError.
\<close>

datatype phase = Idle | Starting | Listening

record recognizer =
  continuous :: bool
  interimResults :: bool
  lang :: jsstring
  phase :: phase
  stop_requested :: bool

datatype recorder_state = inactive | recording

record utterance =
  utter_text :: jsstring
  utter_lang :: jsstring

record lang_button =
  dataset_lang :: jsval
  btn_textContent :: jsstring

record voice_button =
  listening :: bool
  disabled :: bool
  innerHTML :: jsstring
  title :: jsstring

record state =
  currentLanguage :: jsval
  isRecording :: bool
  mediaRecorder :: "nat option"
  audioChunks :: "8 word list list"
  recognition :: "recognizer option"
  recorders :: "recorder_state list"
  has_webkitSpeechRecognition :: bool
  has_speechSynthesis :: bool
  messageInput_value :: jsstring
  messageInput_placeholder :: jsstring
  voiceBtn :: voice_button
  voiceStatus_display :: jsstring
  chatMessages :: "message_div list"
  active_langButton :: "lang_button option"
  form :: document_form
  form_default :: document_form
  documentsList :: "document_item list"
  logsContainer :: "log_entry list"
  responseAudio_src :: jsstring
  responseAudio_plays :: nat
  utterances :: "utterance list"
  console :: "console_entry list"
  alerts :: "jsstring list"
  requests :: "request list"
  timers :: nat

text \<open>
  An operation returns its final state together with either its value or the exception it
  throws (for an \<open>async\<close> function: the rejection of its promise).
\<close>

type_synonym 'a result = "(js_error + 'a) \<times> state"

definition fetch :: "request \<Rightarrow> state \<Rightarrow> state" where
  "fetch rq s = s\<lparr>requests := requests s @ [rq]\<rparr>"

definition console_write :: "console_level \<Rightarrow> string \<Rightarrow> console_arg \<Rightarrow> state \<Rightarrow> state" where
  "console_write lv lbl a s =
     s\<lparr>console := console s @ [\<lparr>level = lv, label = str lbl, arg = a\<rparr>]\<rparr>"

section \<open>The script\<close>

subsection \<open>Recognition language\<close>

definition updateRecognitionLanguage :: "state \<Rightarrow> state" where
  "updateRecognitionLanguage s =
     (case recognition s of
        None \<Rightarrow> s
      | Some r \<Rightarrow>
          (if currentLanguage s = JStr (str ''ml'')
           then s\<lparr>recognition := Some (r\<lparr>lang := str ''ml-IN''\<rparr>)\<rparr>
           else if currentLanguage s = JStr (str ''manglish'')
           then s\<lparr>recognition := Some (r\<lparr>lang := str ''en-IN''\<rparr>)\<rparr>
           else s\<lparr>recognition := Some (r\<lparr>lang := str ''en-US''\<rparr>)\<rparr>))"

subsection \<open>Chat messages and the system log\<close>

text \<open>
  The regular expression of \<open>addMessage\<close>: one code unit in the range U+0D00 to
  U+0D7F somewhere in the string.
\<close>

definition matches_malayalam :: "jsstring \<Rightarrow> bool" where
  "matches_malayalam t = list_ex (\<lambda>c. 0x0D00 \<le> c \<and> c \<le> 0x0D7F) t"

text \<open>
  \<open>addMessage(sender, text)\<close>: the template converts \<open>text\<close> to a string, the element
  is appended, and only then \<open>text.match\<close> is called, which throws on a value that is
  not a string. The parameter \<open>isExample\<close> is never read.
\<close>

definition addMessage :: "sender \<Rightarrow> jsval \<Rightarrow> state \<Rightarrow> unit result" where
  "addMessage sender text s =
     (case to_string text of
        Inl e \<Rightarrow> (Inl e, s)
      | Inr shown \<Rightarrow>
          (let messageDiv = \<lparr>className = sender,
                             senderName = (if sender = User then str ''You'' else str ''Assistant''),
                             content = shown,
                             malayalam_text = False\<rparr>;
               s1 = s\<lparr>chatMessages := chatMessages s @ [messageDiv]\<rparr>
           in (case text of
                 JStr t \<Rightarrow>
                   (if matches_malayalam t
                    then (Inr (), s\<lparr>chatMessages :=
                                     chatMessages s @ [messageDiv\<lparr>malayalam_text := True\<rparr>]\<rparr>)
                    else (Inr (), s1))
               | JUndefined \<Rightarrow>
                   (Inl (TypeError (str ''Cannot read properties of undefined (reading match)'')), s1)
               | JNull \<Rightarrow>
                   (Inl (TypeError (str ''Cannot read properties of null (reading match)'')), s1)
               | _ \<Rightarrow> (Inl (TypeError (str ''text.match is not a function'')), s1))))"

definition logToSystem :: "jsstring \<Rightarrow> log_type \<Rightarrow> state \<Rightarrow> state" where
  "logToSystem msg type s =
     s\<lparr>logsContainer := logsContainer s @ [\<lparr>log_class = type, textContent = msg\<rparr>]\<rparr>"

subsection \<open>Text queries\<close>

text \<open>
  \<open>speakText\<close>: the utterance gets the text and a locale; its rate, pitch and volume
  are always 1.
\<close>

definition speakText :: "jsval \<Rightarrow> jsval \<Rightarrow> state \<Rightarrow> unit result" where
  "speakText text language s =
     (if has_speechSynthesis s then
        (case to_string text of
           Inl e \<Rightarrow> (Inl e, s)
         | Inr t \<Rightarrow>
             (let l = (if language = JStr (str ''ml'') then str ''ml-IN''
                       else if language = JStr (str ''manglish'') then str ''en-IN''
                       else str ''en-US'')
              in (Inr (), s\<lparr>utterances := utterances s @ [\<lparr>utter_text = t, utter_lang = l\<rparr>]\<rparr>)))
      else (Inr (), s))"

text \<open>
  The statement \<open>if (data.audio_url) ... else ...\<close> of \<open>sendMessage\<close>: the audio
  of the backend is played, or else the answer is spoken by the browser. The promise of
  \<open>responseAudio.play()\<close> is not followed: its rejection handler only writes to the
  console.
\<close>

definition play_or_speak :: "jsval \<Rightarrow> jsval \<Rightarrow> state \<Rightarrow> unit result" where
  "play_or_speak data answer s =
     (case get_prop data ''audio_url'' of
        Inl e \<Rightarrow> (Inl e, s)
      | Inr audio_url \<Rightarrow>
          if truthy audio_url
          then (case to_string audio_url of
                  Inl e \<Rightarrow> (Inl e, s)
                | Inr u \<Rightarrow>
                    (Inr (),
                     s\<lparr>responseAudio_src := API_BASE_URL @ u,
                       responseAudio_plays := Suc (responseAudio_plays s)\<rparr>))
          else (case get_prop data ''language'' of
                  Inl e \<Rightarrow> (Inl e, s)
                | Inr language \<Rightarrow> speakText answer language s))"

text \<open>The body of the \<open>try\<close> block of \<open>sendMessage\<close>.\<close>

definition sendMessage_try :: "jsstring \<Rightarrow> fetch_result \<Rightarrow> state \<Rightarrow> unit result" where
  "sendMessage_try text r s0 =
     (let s = fetch \<lparr>req_method = ''POST'',
                     req_url = API_BASE_URL @ str ''/api/query'',
                     req_body = JsonBody (JObj
                       [(str ''text'', JStr text),
                        (str ''language'',
                           if currentLanguage s0 = JStr (str ''auto'') then JNull
                           else currentLanguage s0)])\<rparr> s0
      in case r of
           Rejected e \<Rightarrow> (Inl e, s)
         | Response status body \<Rightarrow>
             if \<not> ok status
             then (Inl (Error (str ''HTTP error! status: '' @ decimal status)), s)
             else
               (case body of
                  NotJson e \<Rightarrow> (Inl e, s)
                | Json data \<Rightarrow>
                    (case get_prop data ''answer'' of
                       Inl e \<Rightarrow> (Inl e, s)
                     | Inr answer \<Rightarrow>
                         (case addMessage Bot answer s of
                            (Inl e, s1) \<Rightarrow> (Inl e, s1)
                          | (Inr u, s1) \<Rightarrow>
                              (case play_or_speak data answer s1 of
                                 (Inl e, s2) \<Rightarrow> (Inl e, s2)
                               | (Inr u, s2) \<Rightarrow>
                                   (case substring0 answer 50 of
                                      Inl e \<Rightarrow> (Inl e, s2)
                                    | Inr a50 \<Rightarrow>
                                        (Inr (),
                                         logToSystem
                                           (str ''User query: \"'' @ text
                                            @ str ''\" -> Response: \"'' @ a50 @ str ''...\"'')
                                           info s2)))))))"

definition sendMessage_catch :: "js_error \<Rightarrow> state \<Rightarrow> unit result" where
  "sendMessage_catch e s =
     (case addMessage Bot
             (JStr (str ''Sorry, there was an error processing your request. Please try again.''))
             (console_write console_error ''Error sending message:'' (ErrorArg e) s) of
        (Inl e', s1) \<Rightarrow> (Inl e', s1)
      | (Inr u, s1) \<Rightarrow> (Inr (), logToSystem (str ''Error: '' @ message e) error s1))"

definition sendMessage :: "fetch_result \<Rightarrow> state \<Rightarrow> unit result" where
  "sendMessage r s =
     (let text = trim (messageInput_value s) in
      if text = [] then (Inr (), s)
      else
        (case addMessage User (JStr text) s of
           (Inl e, s1) \<Rightarrow> (Inl e, s1)
         | (Inr u, s1) \<Rightarrow>
             (case sendMessage_try text r (s1\<lparr>messageInput_value := []\<rparr>) of
                (Inl e, s2) \<Rightarrow> sendMessage_catch e s2
              | (Inr u, s2) \<Rightarrow> (Inr (), s2))))"

subsection \<open>Voice input: speech recognition\<close>

definition new_webkitSpeechRecognition :: recognizer where
  "new_webkitSpeechRecognition =
     \<lparr>continuous = False, interimResults = False, lang = [], phase = Idle,
      stop_requested = False\<rparr>"

text \<open>
  \<open>recognition.start()\<close> and \<open>recognition.stop()\<close>, as the browser performs them:
  \<open>start()\<close> begins a session or throws, \<open>stop()\<close> asks a session under way to
  end; the session is over when the browser fires \<open>end\<close>.
\<close>

definition recognition_start :: "recognizer \<Rightarrow> js_error + recognizer" where
  "recognition_start r =
     (if phase r = Idle then Inr (r\<lparr>phase := Starting\<rparr>)
      else Inl (DOMException (str ''InvalidStateError'') (str ''recognition has already started'')))"

definition recognition_stop :: "recognizer \<Rightarrow> recognizer" where
  "recognition_stop r = (if phase r = Idle then r else r\<lparr>stop_requested := True\<rparr>)"

text \<open>The four handlers that \<open>initSpeechRecognition\<close> installs.\<close>

definition recognition_onstart :: "state \<Rightarrow> unit result" where
  "recognition_onstart s =
     addMessage System (JStr (str ''Listening... Speak now!''))
       (s\<lparr>isRecording := True,
          voiceBtn := (voiceBtn s)\<lparr>listening := True\<rparr>,
          voiceStatus_display := str ''flex''\<rparr>)"

definition recognition_onresult :: "jsstring \<Rightarrow> state \<Rightarrow> unit result" where
  "recognition_onresult transcript s =
     (Inr (), s\<lparr>messageInput_value := transcript, timers := Suc (timers s)\<rparr>)"

definition recognition_onerror :: "jsstring \<Rightarrow> state \<Rightarrow> unit result" where
  "recognition_onerror code s =
     addMessage System (JStr (str ''Speech recognition error: '' @ code))
       (console_write console_error ''Speech recognition error:'' (StringArg code) s)"

definition recognition_onend :: "state \<Rightarrow> unit result" where
  "recognition_onend s =
     (Inr (), s\<lparr>isRecording := False,
               voiceBtn := (voiceBtn s)\<lparr>listening := False\<rparr>,
               voiceStatus_display := str ''none''\<rparr>)"

definition initSpeechRecognition :: "state \<Rightarrow> state" where
  "initSpeechRecognition s =
     (if has_webkitSpeechRecognition s
      then updateRecognitionLanguage (s\<lparr>recognition := Some new_webkitSpeechRecognition\<rparr>)
      else (console_write console_warn ''Speech recognition not supported'' NoArg s)
             \<lparr>voiceBtn := (voiceBtn s)
                \<lparr>disabled := True,
                 innerHTML := str ''<i class=\"fas fa-microphone-slash\"></i>'',
                 title := str ''Speech recognition not supported''\<rparr>\<rparr>)"

definition toggleVoiceRecording :: "state \<Rightarrow> unit result" where
  "toggleVoiceRecording s =
     (case recognition s of
        None \<Rightarrow>
          addMessage System
            (JStr (str ''Voice recognition is not supported in your browser.'')) s
      | Some r \<Rightarrow>
          if isRecording s
          then (Inr (), s\<lparr>recognition := Some (recognition_stop r)\<rparr>)
          else (case recognition_start r of
                  Inl e \<Rightarrow> (Inl e, s)
                | Inr r' \<Rightarrow> (Inr (), s\<lparr>recognition := Some r'\<rparr>)))"

subsection \<open>Knowledge-base documents\<close>

definition nth_opt :: "'a list \<Rightarrow> nat \<Rightarrow> 'a option" where
  "nth_opt xs i = (if i < length xs then Some (xs ! i) else None)"

text \<open>The callback of \<open>data.documents.forEach\<close>, run on the elements in order.\<close>

fun forEach_document :: "nat \<Rightarrow> jsval list \<Rightarrow> state \<Rightarrow> unit result" where
  "forEach_document index [] s = (Inr (), s)"
| "forEach_document index (doc # docs) s =
     (case get_prop doc ''text'' of
        Inl e \<Rightarrow> (Inl e, s)
      | Inr t \<Rightarrow>
          (case t of
             JStr txt \<Rightarrow>
               (let textParts = map trim (js_split 0x007C txt);
                    docDiv =
                      \<lparr>doc_number = index + 1,
                       doc_en = (case nth_opt textParts 0 of None \<Rightarrow> [] | Some p \<Rightarrow> p),
                       doc_ml = (case nth_opt textParts 1 of
                                   None \<Rightarrow> None
                                 | Some p \<Rightarrow> if p \<noteq> [] then Some p else None),
                       doc_manglish = (case nth_opt textParts 2 of
                                         None \<Rightarrow> None
                                       | Some p \<Rightarrow> if p \<noteq> [] then Some p else None)\<rparr>
                in forEach_document (Suc index) docs
                     (s\<lparr>documentsList := documentsList s @ [docDiv]\<rparr>))
           | JUndefined \<Rightarrow>
               (Inl (TypeError (str ''Cannot read properties of undefined (reading split)'')), s)
           | JNull \<Rightarrow>
               (Inl (TypeError (str ''Cannot read properties of null (reading split)'')), s)
           | _ \<Rightarrow> (Inl (TypeError (str ''doc.text.split is not a function'')), s)))"

text \<open>
  The \<open>try\<close> block of \<open>loadDocuments\<close>. The status of the response is not looked
  at; the list is emptied once the body has been parsed.
\<close>

definition loadDocuments_try :: "fetch_result \<Rightarrow> state \<Rightarrow> unit result" where
  "loadDocuments_try r s0 =
     (let s = fetch \<lparr>req_method = ''GET'',
                     req_url = API_BASE_URL @ str ''/api/documents'',
                     req_body = NoBody\<rparr> s0
      in case r of
           Rejected e \<Rightarrow> (Inl e, s)
         | Response status body \<Rightarrow>
             (case body of
                NotJson e \<Rightarrow> (Inl e, s)
              | Json data \<Rightarrow>
                  (let s1 = s\<lparr>documentsList := []\<rparr> in
                   case get_prop data ''documents'' of
                     Inl e \<Rightarrow> (Inl e, s1)
                   | Inr documents \<Rightarrow>
                       (case documents of
                          JArr docs \<Rightarrow>
                            (case forEach_document 0 docs s1 of
                               (Inl e, s2) \<Rightarrow> (Inl e, s2)
                             | (Inr u, s2) \<Rightarrow>
                                 (Inr (),
                                  logToSystem
                                    (str ''Loaded '' @ decimal (length docs)
                                     @ str '' documents from knowledge base'')
                                    info s2))
                        | JUndefined \<Rightarrow>
                            (Inl (TypeError
                               (str ''Cannot read properties of undefined (reading forEach)'')), s1)
                        | JNull \<Rightarrow>
                            (Inl (TypeError
                               (str ''Cannot read properties of null (reading forEach)'')), s1)
                        | _ \<Rightarrow>
                            (Inl (TypeError
                               (str ''data.documents.forEach is not a function'')), s1)))))"

definition loadDocuments_catch :: "js_error \<Rightarrow> state \<Rightarrow> unit result" where
  "loadDocuments_catch e s =
     (Inr (),
      logToSystem (str ''Error loading documents: '' @ message e) error
        (console_write console_error ''Error loading documents:'' (ErrorArg e) s))"

definition loadDocuments :: "fetch_result \<Rightarrow> state \<Rightarrow> unit result" where
  "loadDocuments r s =
     (case loadDocuments_try r s of
        (Inl e, s1) \<Rightarrow> loadDocuments_catch e s1
      | (Inr u, s1) \<Rightarrow> (Inr (), s1))"

text \<open>
  \<open>addDocument\<close>: \<open>r\<close> answers its own request, \<open>r_list\<close> the request of the
  \<open>loadDocuments()\<close> it starts. That call is not awaited, so its promise is dropped
  and only its effects remain. The check mark and the cross of the two messages are the
  code units U+2705 and U+274C.
\<close>

definition addDocument_try ::
  "jsstring \<Rightarrow> jsstring \<Rightarrow> jsstring \<Rightarrow> fetch_result \<Rightarrow> fetch_result \<Rightarrow> state \<Rightarrow> bool result" where
  "addDocument_try english malayalam manglish r r_list s0 =
     (let s = fetch \<lparr>req_method = ''POST'',
                     req_url = API_BASE_URL @ str ''/api/add-document'',
                     req_body = JsonBody (JObj
                       [(str ''english'', JStr english),
                        (str ''malayalam'', JStr malayalam),
                        (str ''manglish'', JStr (if manglish \<noteq> [] then manglish else []))])\<rparr> s0
      in case r of
           Rejected e \<Rightarrow> (Inl e, s)
         | Response status body \<Rightarrow>
             if \<not> ok status
             then (Inl (Error (str ''HTTP error! status: '' @ decimal status)), s)
             else
               (case body of
                  NotJson e \<Rightarrow> (Inl e, s)
                | Json data \<Rightarrow>
                    (case get_prop data ''id'' of
                       Inl e \<Rightarrow> (Inl e, s)
                     | Inr doc_id \<Rightarrow>
                         (case to_string doc_id of
                            Inl e \<Rightarrow> (Inl e, s)
                          | Inr id_text \<Rightarrow>
                              (case addMessage System
                                      (JStr (0x2705 # str '' Document added successfully! ID: ''
                                             @ id_text)) s of
                                 (Inl e, s1) \<Rightarrow> (Inl e, s1)
                               | (Inr u, s1) \<Rightarrow>
                                   (let s2 = logToSystem
                                               (str ''Added new document: '' @ take 50 english
                                                @ str ''...'') info s1;
                                        s3 = snd (loadDocuments r_list s2)
                                    in (Inr True, s3)))))))"

definition addDocument_catch :: "js_error \<Rightarrow> state \<Rightarrow> bool result" where
  "addDocument_catch e s =
     (case addMessage System
             (JStr (0x274C # str '' Error adding document: '' @ message e))
             (console_write console_error ''Error adding document:'' (ErrorArg e) s) of
        (Inl e', s1) \<Rightarrow> (Inl e', s1)
      | (Inr u, s1) \<Rightarrow>
          (Inr False, logToSystem (str ''Error adding document: '' @ message e) error s1))"

definition addDocument ::
  "jsstring \<Rightarrow> jsstring \<Rightarrow> jsstring \<Rightarrow> fetch_result \<Rightarrow> fetch_result \<Rightarrow> state \<Rightarrow> bool result" where
  "addDocument english malayalam manglish r r_list s =
     (case addDocument_try english malayalam manglish r r_list s of
        (Inl e, s1) \<Rightarrow> addDocument_catch e s1
      | (Inr b, s1) \<Rightarrow> (Inr b, s1))"

text \<open>
  The submit handler of the form. \<open>addDocumentForm.reset()\<close> puts every field back to
  the default value the markup gives it.
\<close>

definition addDocumentForm_submit :: "fetch_result \<Rightarrow> fetch_result \<Rightarrow> state \<Rightarrow> unit result" where
  "addDocumentForm_submit r r_list s =
     (let english = trim (englishText (form s));
          malayalam = trim (malayalamText (form s));
          manglish = trim (manglishText (form s))
      in if english = [] \<or> malayalam = []
         then (Inr (),
               s\<lparr>alerts := alerts s
                    @ [str ''Please fill in at least English and Malayalam versions'']\<rparr>)
         else
           (case addDocument english malayalam manglish r r_list s of
              (Inl e, s1) \<Rightarrow> (Inl e, s1)
            | (Inr success, s1) \<Rightarrow>
                if success then (Inr (), s1\<lparr>form := form_default s1\<rparr>) else (Inr (), s1)))"

subsection \<open>Language selection\<close>

definition placeholder_ml :: jsstring where
  "placeholder_ml =
     [
      0x0D07, 0x0D35, 0x0D3F, 0x0D1F, 0x0D46, 0x0020, 0x0D28, 0x0D3F, 0x0D19, 0x0D4D,
      0x0D19, 0x0D33, 0x0D41, 0x0D1F, 0x0D46, 0x0020, 0x0D1A, 0x0D4B, 0x0D26, 0x0D4D,
      0x0D2F, 0x0D02, 0x0020, 0x0D1F, 0x0D48, 0x0D2A, 0x0D4D, 0x0D2A, 0x0D4D, 0x0020,
      0x0D1A, 0x0D46, 0x0D2F, 0x0D4D, 0x0D2F, 0x0D41, 0x0D15, 0x002E, 0x002E, 0x002E,
      0x0020, 0x0D05, 0x0D32, 0x0D4D, 0x0D32, 0x0D46, 0x0D19, 0x0D4D, 0x0D15, 0x0D3F,
      0x0D7D, 0x0020, 0x0D2E, 0x0D48, 0x0D15, 0x0D4D, 0x0D15, 0x0D3F, 0x0D7D, 0x0020,
      0x0D15, 0x0D4D, 0x0D32, 0x0D3F, 0x0D15, 0x0D4D, 0x0D15, 0x0D4D, 0x0020, 0x0D1A,
      0x0D46, 0x0D2F, 0x0D4D, 0x0D24, 0x0D4D, 0x0020, 0x0D38, 0x0D02, 0x0D38, 0x0D3E,
      0x0D30, 0x0D3F, 0x0D15, 0x0D4D, 0x0D15, 0x0D41, 0x0D15]"

definition langButton_click :: "lang_button \<Rightarrow> state \<Rightarrow> unit result" where
  "langButton_click btn s =
     (let s1 = updateRecognitionLanguage
                 (s\<lparr>active_langButton := Some btn, currentLanguage := dataset_lang btn\<rparr>);
          s2 = s1\<lparr>messageInput_placeholder :=
                    (if currentLanguage s1 = JStr (str ''ml'') then placeholder_ml
                     else if currentLanguage s1 = JStr (str ''manglish'')
                     then str ''Type your question here... or click mic to speak in Manglish''
                     else str ''Type your question here... or click the mic to speak'')\<rparr>
      in addMessage System (JStr (str ''Language set to: '' @ btn_textContent btn)) s2)"

subsection \<open>Voice input: audio capture\<close>

text \<open>
  \<open>sendAudioToBackend\<close>: as in \<open>loadDocuments\<close>, the status is not looked at.
  The promise of \<open>responseAudio.play()\<close> is not followed here either: it is not
  awaited, so that its rejection is not an exception of this function.
\<close>

definition sendAudioToBackend_try :: "blob \<Rightarrow> fetch_result \<Rightarrow> state \<Rightarrow> unit result" where
  "sendAudioToBackend_try audioBlob r s0 =
     (let s = fetch \<lparr>req_method = ''POST'',
                     req_url = API_BASE_URL @ str ''/api/voice-query'',
                     req_body = FormBody (str ''audio'') audioBlob (str ''recording.wav'')\<rparr> s0
      in case r of
           Rejected e \<Rightarrow> (Inl e, s)
         | Response status body \<Rightarrow>
             (case body of
                NotJson e \<Rightarrow> (Inl e, s)
              | Json data \<Rightarrow>
                  (case get_prop data ''text'' of
                     Inl e \<Rightarrow> (Inl e, s)
                   | Inr text \<Rightarrow>
                       (case addMessage User text s of
                          (Inl e, s1) \<Rightarrow> (Inl e, s1)
                        | (Inr u, s1) \<Rightarrow>
                            (case get_prop data ''answer'' of
                               Inl e \<Rightarrow> (Inl e, s1)
                             | Inr answer \<Rightarrow>
                                 (case addMessage Bot answer s1 of
                                    (Inl e, s2) \<Rightarrow> (Inl e, s2)
                                  | (Inr u, s2) \<Rightarrow>
                                      (case get_prop data ''audio_url'' of
                                         Inl e \<Rightarrow> (Inl e, s2)
                                       | Inr audio_url \<Rightarrow>
                                           if truthy audio_url
                                           then (case to_string audio_url of
                                                   Inl e \<Rightarrow> (Inl e, s2)
                                                 | Inr u \<Rightarrow>
                                                     (Inr (),
                                                      s2\<lparr>responseAudio_src := API_BASE_URL @ u,
                                                         responseAudio_plays :=
                                                           Suc (responseAudio_plays s2)\<rparr>))
                                           else (Inr (), s2))))))))"

definition sendAudioToBackend_catch :: "js_error \<Rightarrow> state \<Rightarrow> unit result" where
  "sendAudioToBackend_catch e s =
     addMessage Bot (JStr (str ''Error processing voice input''))
       (console_write console_error ''Error sending audio:'' (ErrorArg e) s)"

definition sendAudioToBackend :: "blob \<Rightarrow> fetch_result \<Rightarrow> state \<Rightarrow> unit result" where
  "sendAudioToBackend audioBlob r s =
     (case sendAudioToBackend_try audioBlob r s of
        (Inl e, s1) \<Rightarrow> sendAudioToBackend_catch e s1
      | (Inr u, s1) \<Rightarrow> (Inr (), s1))"

text \<open>
  \<open>startMediaRecording\<close>: \<open>getUserMedia\<close> grants the microphone or rejects. Every
  \<open>new MediaRecorder\<close> is a further recorder of the browser; the variable
  \<open>mediaRecorder\<close> points to the latest one. The script has no call of
  \<open>mediaRecorder.stop()\<close>.
\<close>

datatype media_result = Granted | Denied js_error

definition startMediaRecording :: "media_result \<Rightarrow> state \<Rightarrow> unit result" where
  "startMediaRecording m s =
     (case m of
        Granted \<Rightarrow>
          (Inr (),
           s\<lparr>recorders := recorders s @ [recording],
             mediaRecorder := Some (length (recorders s)),
             audioChunks := [],
             isRecording := True,
             voiceBtn := (voiceBtn s)\<lparr>listening := True\<rparr>,
             voiceStatus_display := str ''flex''\<rparr>)
      | Denied e \<Rightarrow>
          addMessage System
            (JStr (str ''Microphone access denied. Please allow microphone permissions.''))
            (console_write console_error ''Error accessing microphone:'' (ErrorArg e) s))"

definition mediaRecorder_ondataavailable :: "8 word list \<Rightarrow> state \<Rightarrow> state" where
  "mediaRecorder_ondataavailable chunk s = s\<lparr>audioChunks := audioChunks s @ [chunk]\<rparr>"

definition mediaRecorder_onstop :: "fetch_result \<Rightarrow> state \<Rightarrow> unit result" where
  "mediaRecorder_onstop r s =
     sendAudioToBackend (Blob (audioChunks s) (str ''audio/wav'')) r s"

subsection \<open>Start of the page and event handlers\<close>

text \<open>
  The promise chain that probes the backend when the page has loaded; its \<open>catch\<close>
  takes every rejection of the chain.
\<close>

definition backend_probe :: "fetch_result \<Rightarrow> state \<Rightarrow> state" where
  "backend_probe r s0 =
     (let s = fetch \<lparr>req_method = ''GET'', req_url = API_BASE_URL @ str ''/'',
                     req_body = NoBody\<rparr> s0;
          failed = (\<lambda>e. logToSystem (str ''Backend connection failed: '' @ message e) error s)
      in case r of
           Rejected e \<Rightarrow> failed e
         | Response status body \<Rightarrow>
             (case body of
                NotJson e \<Rightarrow> failed e
              | Json data \<Rightarrow>
                  (case get_prop data ''message'' of
                     Inl e \<Rightarrow> failed e
                   | Inr m \<Rightarrow>
                       (case to_string m of
                          Inl e \<Rightarrow> failed e
                        | Inr shown \<Rightarrow>
                            logToSystem (str ''Backend connected: '' @ shown) info s))))"

definition DOMContentLoaded :: "fetch_result \<Rightarrow> fetch_result \<Rightarrow> state \<Rightarrow> state" where
  "DOMContentLoaded r_docs r_probe s =
     backend_probe r_probe (snd (loadDocuments r_docs (initSpeechRecognition s)))"

text \<open>
  The state in which the top level of the script leaves its variables, before any event.
\<close>

definition script_loaded :: "state \<Rightarrow> bool" where
  "script_loaded s =
     (currentLanguage s = JStr (str ''auto'') \<and> \<not> isRecording s \<and> mediaRecorder s = None
      \<and> audioChunks s = [] \<and> recognition s = None \<and> recorders s = [] \<and> timers s = 0
      \<and> requests s = [])"

text \<open>
  The events the script has a handler for. A user event carries what the network answers
  to the requests its handler sends. The events of the recogniser are fired by the browser
  and only while a recognition is under way: \<open>start\<close> once after \<open>start()\<close>,
  \<open>result\<close> while listening, \<open>error\<close> and \<open>end\<close> at any moment of the session;
  \<open>end\<close> closes it. An exception that leaves a handler is reported by the browser and
  the page goes on from the state reached. Neither \<open>startMediaRecording\<close> nor
  \<open>initWebSocket\<close> is called from any handler, so that no event runs them. The
  display of the modal and of the tabs is not part of the state.
\<close>

datatype event =
    Input_messageInput jsstring
  | Input_form document_form
  | Click_sendBtn fetch_result
  | Keypress_messageInput jsstring bool fetch_result
  | Click_voiceBtn
  | Click_exampleButton jsstring fetch_result
  | Click_langButton lang_button
  | Click_tab jsstring fetch_result
  | Submit_addDocumentForm fetch_result fetch_result
  | Click_privacyLink
  | Click_aboutLink
  | Click_docsLink fetch_result
  | Timeout_sendMessage fetch_result
  | Recognition_start
  | Recognition_result jsstring
  | Recognition_error jsstring
  | Recognition_end

fun dispatch :: "event \<Rightarrow> state \<Rightarrow> state option" where
  "dispatch (Input_messageInput v) s = Some (s\<lparr>messageInput_value := v\<rparr>)"
| "dispatch (Input_form f) s = Some (s\<lparr>form := f\<rparr>)"
| "dispatch (Click_sendBtn r) s = Some (snd (sendMessage r s))"
| "dispatch (Keypress_messageInput key shiftKey r) s =
     (if key = str ''Enter'' \<and> \<not> shiftKey then Some (snd (sendMessage r s)) else Some s)"
| "dispatch Click_voiceBtn s = Some (snd (toggleVoiceRecording s))"
| "dispatch (Click_exampleButton question r) s =
     Some (snd (sendMessage r (s\<lparr>messageInput_value := question\<rparr>)))"
| "dispatch (Click_langButton btn) s = Some (snd (langButton_click btn s))"
| "dispatch (Click_tab tabId r) s =
     (if tabId = str ''view-docs'' then Some (snd (loadDocuments r s)) else Some s)"
| "dispatch (Submit_addDocumentForm r r_list) s = Some (snd (addDocumentForm_submit r r_list s))"
| "dispatch Click_privacyLink s =
     Some (snd (addMessage System
       (JStr (str ''Privacy: All data is processed locally. Voice recordings are not stored.''))
       s))"
| "dispatch Click_aboutLink s =
     Some (snd (addMessage System
       (JStr (str (''College Voice Assistant v1.0 - Powered by Google Gemini AI with RAG ''
                   @ ''architecture. Supports Malayalam, English & Manglish.'')))
       s))"
| "dispatch (Click_docsLink r) s = Some (snd (loadDocuments r s))"
| "dispatch (Timeout_sendMessage r) s =
     (if 0 < timers s then Some (snd (sendMessage r (s\<lparr>timers := timers s - 1\<rparr>))) else None)"
| "dispatch Recognition_start s =
     (case recognition s of
        None \<Rightarrow> None
      | Some r \<Rightarrow>
          if phase r = Starting
          then Some (snd (recognition_onstart (s\<lparr>recognition := Some (r\<lparr>phase := Listening\<rparr>)\<rparr>)))
          else None)"
| "dispatch (Recognition_result transcript) s =
     (case recognition s of
        None \<Rightarrow> None
      | Some r \<Rightarrow>
          if phase r = Listening then Some (snd (recognition_onresult transcript s)) else None)"
| "dispatch (Recognition_error code) s =
     (case recognition s of
        None \<Rightarrow> None
      | Some r \<Rightarrow>
          if phase r \<noteq> Idle then Some (snd (recognition_onerror code s)) else None)"
| "dispatch Recognition_end s =
     (case recognition s of
        None \<Rightarrow> None
      | Some r \<Rightarrow>
          if phase r \<noteq> Idle
          then Some (snd (recognition_onend
                 (s\<lparr>recognition := Some (r\<lparr>phase := Idle, stop_requested := False\<rparr>)\<rparr>)))
          else None)"

text \<open>
  A run of the page: the events are handled one after the other; an event that cannot
  occur in the state reached ends the run without a result.
\<close>

fun run :: "event list \<Rightarrow> state \<Rightarrow> state option" where
  "run [] s = Some s"
| "run (ev # evs) s = (case dispatch ev s of None \<Rightarrow> None | Some s' \<Rightarrow> run evs s')"

text \<open>The voice sessions under way: of the recogniser, and of the recorders.\<close>

definition recognition_sessions :: "state \<Rightarrow> nat" where
  "recognition_sessions s =
     (case recognition s of None \<Rightarrow> 0 | Some r \<Rightarrow> if phase r = Idle then 0 else 1)"

definition capture_sessions :: "state \<Rightarrow> nat" where
  "capture_sessions s = length (filter (\<lambda>x. x = recording) (recorders s))"

definition active_sessions :: "state \<Rightarrow> nat" where
  "active_sessions s = recognition_sessions s + capture_sessions s"

subsection \<open>A page to run the script on\<close>

text \<open>
  A page as the script finds it when it has been loaded: the variables as the top level
  of the script sets them, a browser with both speech interfaces, empty fields, an empty
  chat and an empty document list.
\<close>

definition fresh_page :: state where
  "fresh_page =
     \<lparr>currentLanguage = JStr (str ''auto''),
      isRecording = False,
      mediaRecorder = None,
      audioChunks = [],
      recognition = None,
      recorders = [],
      has_webkitSpeechRecognition = True,
      has_speechSynthesis = True,
      messageInput_value = [],
      messageInput_placeholder = [],
      voiceBtn = \<lparr>listening = False, disabled = False, innerHTML = [], title = []\<rparr>,
      voiceStatus_display = str ''none'',
      chatMessages = [],
      active_langButton = None,
      form = \<lparr>englishText = [], malayalamText = [], manglishText = []\<rparr>,
      form_default = \<lparr>englishText = [], malayalamText = [], manglishText = []\<rparr>,
      documentsList = [],
      logsContainer = [],
      responseAudio_src = [],
      responseAudio_plays = 0,
      utterances = [],
      console = [],
      alerts = [],
      requests = [],
      timers = 0\<rparr>"

text \<open>The same page once it has loaded and shown one document.\<close>

definition document_response :: fetch_result where
  "document_response =
     Response 200 (Json (JObj
       [(str ''documents'', JArr [JObj [(str ''text'', JStr (str ''Library | ml''))]])]))"

definition page_with_document :: state where
  "page_with_document = snd (loadDocuments document_response fresh_page)"

text \<open>
  The same page once it has loaded (with a backend that cannot be reached), the voice
  button has been clicked and the recogniser has fired \<open>start\<close>: the recogniser is
  listening.
\<close>

definition listening_page :: state where
  "listening_page =
     (case run [Click_voiceBtn, Recognition_start]
             (DOMContentLoaded (Rejected (TypeError (str ''Failed to fetch'')))
                (Rejected (TypeError (str ''Failed to fetch''))) fresh_page) of
        None \<Rightarrow> fresh_page
      | Some s \<Rightarrow> s)"

section \<open>Properties\<close>

subsection \<open>Chat messages\<close>

lemma addMessage_JStr:
  "addMessage sender (JStr t) s =
     (Inr (), s\<lparr>chatMessages := chatMessages s @
        [\<lparr>className = sender,
          senderName = (if sender = User then str ''You'' else str ''Assistant''),
          content = t, malayalam_text = matches_malayalam t\<rparr>]\<rparr>)"
  by (simp add: addMessage_def Let_def)

lemma matches_malayalam_iff:
  "matches_malayalam t \<longleftrightarrow> (\<exists>c \<in> set t. 0x0D00 \<le> c \<and> c \<le> 0x0D7F)"
  by (simp add: matches_malayalam_def list_ex_iff)

text \<open>
  A code point of the Malayalam block is a single code unit, and no surrogate pair
  produces one: the block occurs among the code points exactly when it occurs among the
  code units.
\<close>

lemma code_points_malayalam:
  "(\<exists>p \<in> set (code_points t). 0x0D00 \<le> p \<and> p \<le> 0x0D7F)
     \<longleftrightarrow> (\<exists>c \<in> set t. 0x0D00 \<le> c \<and> c \<le> 0x0D7F)"
proof (induction t rule: code_points.induct)
  case 1
  show ?case by simp
next
  case (2 c)
  show ?case by (simp add: word_le_nat_alt)
next
  case (3 c d cs)
  show ?case
  proof (cases "0xD800 \<le> c \<and> c \<le> 0xDBFF \<and> 0xDC00 \<le> d \<and> d \<le> 0xDFFF")
    case True
    then have "\<not> (0x0D00 \<le> c \<and> c \<le> 0x0D7F)" "\<not> (0x0D00 \<le> d \<and> d \<le> 0x0D7F)"
      by (auto simp: word_le_nat_alt)
    with True 3 show ?thesis by auto
  next
    case False
    with 3 show ?thesis by (auto simp: word_le_nat_alt)
  qed
qed

lemma ascii_not_malayalam:
  "\<forall>c \<in> set t. c < 0x80 \<Longrightarrow> \<not> matches_malayalam t"
  by (auto simp: matches_malayalam_iff word_le_nat_alt word_less_nat_alt)

text \<open>
  C8. A message whose text is a string is appended as one element; the element carries the
  class \<open>malayalam-text\<close> exactly when the text has a code point in U+0D00 to U+0D7F,
  and so it does not carry it when the text is pure ASCII. (A text that is not a string,
  such as a missing \<open>answer\<close>, is appended without the class and then makes
  \<open>addMessage\<close> throw.)
\<close>

theorem addMessage_malayalam_marker:
  "\<exists>m. addMessage sender (JStr t) s = (Inr (), s\<lparr>chatMessages := chatMessages s @ [m]\<rparr>)
       \<and> className m = sender \<and> content m = t
       \<and> (malayalam_text m \<longleftrightarrow> (\<exists>p \<in> set (code_points t). 0x0D00 \<le> p \<and> p \<le> 0x0D7F))
       \<and> ((\<forall>c \<in> set t. c < 0x80) \<longrightarrow> \<not> malayalam_text m)"
proof -
  let ?m = "\<lparr>className = sender,
             senderName = (if sender = User then str ''You'' else str ''Assistant''),
             content = t, malayalam_text = matches_malayalam t\<rparr>"
  have "addMessage sender (JStr t) s = (Inr (), s\<lparr>chatMessages := chatMessages s @ [?m]\<rparr>)"
    by (rule addMessage_JStr)
  moreover have "className ?m = sender" "content ?m = t"
    by simp_all
  moreover have "malayalam_text ?m \<longleftrightarrow> (\<exists>p \<in> set (code_points t). 0x0D00 \<le> p \<and> p \<le> 0x0D7F)"
    by (simp add: matches_malayalam_iff code_points_malayalam)
  moreover have "(\<forall>c \<in> set t. c < 0x80) \<longrightarrow> \<not> malayalam_text ?m"
    using ascii_not_malayalam [of t] by simp
  ultimately show ?thesis by blast
qed

text \<open>
  The greeting of the specification (U+0D28 U+0D2E U+0D38 U+0D4D U+0D15 U+0D3E U+0D30
  U+0D02) is marked, \<open>hello\<close> is not.
\<close>

theorem addMessage_malayalam_marker_witness:
  "(\<exists>m. addMessage Bot
           (JStr [0x0D28, 0x0D2E, 0x0D38, 0x0D4D, 0x0D15, 0x0D3E, 0x0D30, 0x0D02]) fresh_page
         = (Inr (), fresh_page\<lparr>chatMessages := chatMessages fresh_page @ [m]\<rparr>)
       \<and> malayalam_text m)
   \<and> (\<exists>m. addMessage Bot (JStr (str ''hello'')) fresh_page
         = (Inr (), fresh_page\<lparr>chatMessages := chatMessages fresh_page @ [m]\<rparr>)
       \<and> \<not> malayalam_text m)"
proof -
  let ?ml = "[0x0D28, 0x0D2E, 0x0D38, 0x0D4D, 0x0D15, 0x0D3E, 0x0D30, 0x0D02] :: jsstring"
  have "\<exists>p \<in> set (code_points ?ml). 0x0D00 \<le> p \<and> p \<le> 0x0D7F"
    by simp
  then have "\<exists>m. addMessage Bot (JStr ?ml) fresh_page
                 = (Inr (), fresh_page\<lparr>chatMessages := chatMessages fresh_page @ [m]\<rparr>)
               \<and> malayalam_text m"
    using addMessage_malayalam_marker [of Bot ?ml fresh_page] by blast
  moreover have "\<forall>c \<in> set (str ''hello''). c < 0x80"
    by (simp add: str_def)
  then have "\<exists>m. addMessage Bot (JStr (str ''hello'')) fresh_page
                 = (Inr (), fresh_page\<lparr>chatMessages := chatMessages fresh_page @ [m]\<rparr>)
               \<and> \<not> malayalam_text m"
    using addMessage_malayalam_marker [of Bot "str ''hello''" fresh_page] by blast
  ultimately show ?thesis by blast
qed

subsection \<open>Text queries\<close>

text \<open>
  C10. When the input is empty or only white space, \<open>sendMessage\<close> returns at once:
  the whole state is as before, so no message is appended, the input field keeps its
  value and no request is sent.
\<close>

theorem sendMessage_blank_noop:
  "trim (messageInput_value s) = [] \<Longrightarrow> sendMessage r s = (Inr (), s)"
  by (simp add: sendMessage_def)

theorem sendMessage_blank_noop_witness:
  "trim (messageInput_value (fresh_page\<lparr>messageInput_value := [0x0020, 0x0009, 0x000A]\<rparr>)) = []
   \<and> sendMessage (Rejected (TypeError (str ''Failed to fetch'')))
        (fresh_page\<lparr>messageInput_value := [0x0020, 0x0009, 0x000A]\<rparr>)
      = (Inr (), fresh_page\<lparr>messageInput_value := [0x0020, 0x0009, 0x000A]\<rparr>)"
  using sendMessage_blank_noop
          [of "fresh_page\<lparr>messageInput_value := [0x0020, 0x0009, 0x000A]\<rparr>"
              "Rejected (TypeError (str ''Failed to fetch''))"]
  by (simp add: trim_def is_whitespace_def)

lemma sendMessage_try_failure:
  assumes "\<forall>status body. r = Response status body \<longrightarrow> \<not> ok status"
  shows "sendMessage_try text r s =
     (Inl (case r of Rejected e \<Rightarrow> e
           | Response status body \<Rightarrow> Error (str ''HTTP error! status: '' @ decimal status)),
      fetch \<lparr>req_method = ''POST'', req_url = API_BASE_URL @ str ''/api/query'',
             req_body = JsonBody (JObj
               [(str ''text'', JStr text),
                (str ''language'',
                   if currentLanguage s = JStr (str ''auto'') then JNull
                   else currentLanguage s)])\<rparr> s)"
  using assms by (cases r) (simp_all add: sendMessage_try_def Let_def)

text \<open>
  C4. With a non-empty input, when the request is rejected or answered with a status
  outside 200 to 299, \<open>sendMessage\<close> returns normally; it has appended the user's
  message and exactly one message of the bot, the apology, and exactly one log entry, of
  type error, with the text of the error; it has sent one request.
\<close>

theorem sendMessage_failure:
  assumes "trim (messageInput_value s) \<noteq> []"
    and "\<forall>status body. r = Response status body \<longrightarrow> \<not> ok status"
  shows "\<exists>s' u b l q.
           sendMessage r s = (Inr (), s')
         \<and> chatMessages s' = chatMessages s @ [u, b]
         \<and> className u = User \<and> content u = trim (messageInput_value s)
         \<and> className b = Bot
         \<and> content b = str ''Sorry, there was an error processing your request. Please try again.''
         \<and> logsContainer s' = logsContainer s @ [l]
         \<and> log_class l = error
         \<and> textContent l = str ''Error: '' @
              (case r of Rejected e \<Rightarrow> message e
               | Response status body \<Rightarrow> str ''HTTP error! status: '' @ decimal status)
         \<and> requests s' = requests s @ [q]"
  using assms
  by (cases r)
     (simp_all add: sendMessage_def sendMessage_try_failure sendMessage_catch_def
        addMessage_JStr logToSystem_def console_write_def fetch_def Let_def)

theorem sendMessage_failure_witness:
  "\<exists>s' u b l q.
     sendMessage (Response 500 (NotJson (SyntaxError (str ''Unexpected token''))))
       (fresh_page\<lparr>messageInput_value := str '' hi ''\<rparr>) = (Inr (), s')
     \<and> chatMessages s' = [u, b]
     \<and> className u = User \<and> content u = str ''hi''
     \<and> className b = Bot
     \<and> logsContainer s' = [l]
     \<and> log_class l = error
     \<and> textContent l = str ''Error: HTTP error! status: 500''
     \<and> requests s' = [q]"
proof -
  let ?s = "fresh_page\<lparr>messageInput_value := str '' hi ''\<rparr>"
  let ?r = "Response 500 (NotJson (SyntaxError (str ''Unexpected token'')))"
  have t: "trim (messageInput_value ?s) = str ''hi''"
    by (simp add: trim_def is_whitespace_def str_def)
  have d: "decimal 500 = str ''500''"
    by (simp add: decimal.simps str_def)
  have "trim (messageInput_value ?s) \<noteq> []"
    unfolding t by (simp add: str_def)
  moreover have "\<forall>status body. ?r = Response status body \<longrightarrow> \<not> ok status"
    by (simp add: ok_def)
  ultimately obtain s' u b l q where
      "sendMessage ?r ?s = (Inr (), s')"
      "chatMessages s' = chatMessages ?s @ [u, b]"
      "className u = User" "content u = trim (messageInput_value ?s)"
      "className b = Bot"
      "logsContainer s' = logsContainer ?s @ [l]"
      "log_class l = error"
      "textContent l = str ''Error: '' @
         (case ?r of Rejected e \<Rightarrow> message e
          | Response status body \<Rightarrow> str ''HTTP error! status: '' @ decimal status)"
      "requests s' = requests ?s @ [q]"
    using sendMessage_failure [of ?s ?r] by blast
  then have "sendMessage ?r ?s = (Inr (), s')
     \<and> chatMessages s' = [u, b]
     \<and> className u = User \<and> content u = str ''hi''
     \<and> className b = Bot
     \<and> logsContainer s' = [l]
     \<and> log_class l = error
     \<and> textContent l = str ''Error: HTTP error! status: 500''
     \<and> requests s' = [q]"
    by (simp add: d fresh_page_def str_def trim_def is_whitespace_def)
  then show ?thesis by blast
qed

lemma sendMessage_catch_eq:
  "sendMessage_catch e s =
     (Inr (),
      s\<lparr>console := console s @ [\<lparr>level = console_error, label = str ''Error sending message:'',
                                  arg = ErrorArg e\<rparr>],
        chatMessages := chatMessages s @
          [\<lparr>className = Bot, senderName = str ''Assistant'',
            content = str ''Sorry, there was an error processing your request. Please try again.'',
            malayalam_text = matches_malayalam
              (str ''Sorry, there was an error processing your request. Please try again.'')\<rparr>],
        logsContainer := logsContainer s @
          [\<lparr>log_class = error, textContent = str ''Error: '' @ message e\<rparr>]\<rparr>)"
  by (simp add: sendMessage_catch_def addMessage_JStr console_write_def logToSystem_def)

lemma sendMessage_returns: "fst (sendMessage r s) = Inr ()"
  by (simp add: sendMessage_def Let_def addMessage_JStr sendMessage_catch_eq
        split: prod.splits sum.splits)

subsection \<open>Language selection\<close>

lemma ml_not_manglish: "str ''ml'' \<noteq> str ''manglish''"
  by (simp add: str_def)

text \<open>
  C5. On a page that has a recogniser, a click on a language button sets
  \<open>currentLanguage\<close> to the value of the button and the locale of the recogniser to
  \<open>ml-IN\<close> for \<open>ml\<close>, to \<open>en-IN\<close> for \<open>manglish\<close> and to \<open>en-US\<close> for
  every other value (\<open>auto\<close> among them); a click on the voice button afterwards,
  which starts or stops the recognition, leaves that locale in place.
\<close>

theorem langButton_click_locale:
  assumes "recognition s = Some r"
  shows "\<exists>s' r'. langButton_click btn s = (Inr (), s')
       \<and> currentLanguage s' = dataset_lang btn
       \<and> recognition s' = Some r'
       \<and> (dataset_lang btn = JStr (str ''ml'') \<longrightarrow> lang r' = str ''ml-IN'')
       \<and> (dataset_lang btn = JStr (str ''manglish'') \<longrightarrow> lang r' = str ''en-IN'')
       \<and> (dataset_lang btn \<noteq> JStr (str ''ml'') \<and> dataset_lang btn \<noteq> JStr (str ''manglish'')
             \<longrightarrow> lang r' = str ''en-US'')
       \<and> (\<forall>s''. toggleVoiceRecording s' = (Inr (), s'') \<longrightarrow>
            map_option lang (recognition s'') = Some (lang r'))"
  using assms ml_not_manglish
  by (auto simp: langButton_click_def updateRecognitionLanguage_def addMessage_JStr Let_def
        toggleVoiceRecording_def recognition_stop_def recognition_start_def
      split: if_splits)

theorem langButton_click_locale_witness:
  "recognition (initSpeechRecognition fresh_page)
     = Some (new_webkitSpeechRecognition\<lparr>lang := str ''en-US''\<rparr>)
   \<and> (\<exists>s' r'. langButton_click
                 \<lparr>dataset_lang = JStr (str ''ml''), btn_textContent = str ''Malayalam''\<rparr>
                 (initSpeechRecognition fresh_page) = (Inr (), s')
           \<and> recognition s' = Some r' \<and> lang r' = str ''ml-IN'')
   \<and> (\<exists>s' r'. langButton_click
                 \<lparr>dataset_lang = JStr (str ''manglish''), btn_textContent = str ''Manglish''\<rparr>
                 (initSpeechRecognition fresh_page) = (Inr (), s')
           \<and> recognition s' = Some r' \<and> lang r' = str ''en-IN'')
   \<and> (\<exists>s' r'. langButton_click
                 \<lparr>dataset_lang = JStr (str ''auto''), btn_textContent = str ''Auto''\<rparr>
                 (initSpeechRecognition fresh_page) = (Inr (), s')
           \<and> recognition s' = Some r' \<and> lang r' = str ''en-US'')"
proof -
  let ?ml = "\<lparr>dataset_lang = JStr (str ''ml''), btn_textContent = str ''Malayalam''\<rparr>"
  let ?mg = "\<lparr>dataset_lang = JStr (str ''manglish''), btn_textContent = str ''Manglish''\<rparr>"
  let ?au = "\<lparr>dataset_lang = JStr (str ''auto''), btn_textContent = str ''Auto''\<rparr>"
  have r: "recognition (initSpeechRecognition fresh_page)
             = Some (new_webkitSpeechRecognition\<lparr>lang := str ''en-US''\<rparr>)"
    by (simp add: initSpeechRecognition_def updateRecognitionLanguage_def fresh_page_def str_def)
  have a: "dataset_lang ?au \<noteq> JStr (str ''ml'') \<and> dataset_lang ?au \<noteq> JStr (str ''manglish'')"
    by (simp add: str_def)
  have 1: "\<exists>s' r'. langButton_click ?ml (initSpeechRecognition fresh_page) = (Inr (), s')
           \<and> recognition s' = Some r' \<and> lang r' = str ''ml-IN''"
    using langButton_click_locale [OF r, of ?ml] by auto
  have 2: "\<exists>s' r'. langButton_click ?mg (initSpeechRecognition fresh_page) = (Inr (), s')
           \<and> recognition s' = Some r' \<and> lang r' = str ''en-IN''"
    using langButton_click_locale [OF r, of ?mg] by auto
  have 3: "\<exists>s' r'. langButton_click ?au (initSpeechRecognition fresh_page) = (Inr (), s')
           \<and> recognition s' = Some r' \<and> lang r' = str ''en-US''"
    using langButton_click_locale [OF r, of ?au] a by blast
  from r 1 2 3 show ?thesis by blast
qed

subsection \<open>Loading the documents\<close>

text \<open>
  What an operation leaves alone is stated once for any observation \<open>f\<close> of the
  state that does not depend on the fields the operation writes.
\<close>

lemma documentsList_same:
  "\<exists>ds. s = s\<lparr>documentsList := documentsList s @ ds\<rparr>"
  by (rule exI [of _ "[]"]) simp

lemma forEach_document_shape:
  "\<exists>ds. snd (forEach_document i docs s) = s\<lparr>documentsList := documentsList s @ ds\<rparr>"
proof (induction docs arbitrary: i s)
  case Nil
  show ?case by (simp add: documentsList_same)
next
  case (Cons d docs)
  show ?case
  proof (cases "get_prop d ''text''")
    case (Inl e)
    then show ?thesis by (simp add: documentsList_same)
  next
    case (Inr t)
    show ?thesis
    proof (cases t)
      case (JStr body_text)
      define item where "item =
         \<lparr>doc_number = i + 1,
          doc_en = (case nth_opt (map trim (js_split 0x007C body_text)) 0 of None \<Rightarrow> [] | Some p \<Rightarrow> p),
          doc_ml = (case nth_opt (map trim (js_split 0x007C body_text)) 1 of
                      None \<Rightarrow> None | Some p \<Rightarrow> if p \<noteq> [] then Some p else None),
          doc_manglish = (case nth_opt (map trim (js_split 0x007C body_text)) 2 of
                      None \<Rightarrow> None | Some p \<Rightarrow> if p \<noteq> [] then Some p else None)\<rparr>"
      obtain ds where "snd (forEach_document (Suc i) docs (s\<lparr>documentsList := documentsList s @ [item]\<rparr>))
          = s\<lparr>documentsList := documentsList s @ [item]\<rparr>
             \<lparr>documentsList := documentsList (s\<lparr>documentsList := documentsList s @ [item]\<rparr>) @ ds\<rparr>"
        using Cons.IH by blast
      then have "snd (forEach_document i (d # docs) s) = s\<lparr>documentsList := documentsList s @ (item # ds)\<rparr>"
        using Inr JStr by (simp add: Let_def item_def)
      then show ?thesis by blast
    qed (use Inr in \<open>simp_all add: documentsList_same\<close>)
  qed
qed

lemma forEach_document_frame:
  assumes "\<And>s x. f (s\<lparr>documentsList := x\<rparr>) = f s"
  shows "f (snd (forEach_document i docs s)) = f s"
proof -
  obtain ds where "snd (forEach_document i docs s) = s\<lparr>documentsList := documentsList s @ ds\<rparr>"
    using forEach_document_shape by blast
  then show ?thesis by (simp add: assms)
qed

lemma addMessage_frame:
  assumes "\<And>s x. f (s\<lparr>chatMessages := x\<rparr>) = f s"
  shows "f (snd (addMessage sender text s)) = f s"
  by (cases "text") (simp_all add: addMessage_def Let_def assms split: sum.splits)

lemma loadDocuments_try_frame:
  assumes "\<And>s x. f (s\<lparr>requests := x\<rparr>) = f s"
    and "\<And>s x. f (s\<lparr>documentsList := x\<rparr>) = f s"
    and "\<And>s x. f (s\<lparr>logsContainer := x\<rparr>) = f s"
  shows "f (snd (loadDocuments_try r s)) = f s"
proof -
  have fe: "f (snd (forEach_document i docs s1)) = f s1" for i docs s1
    by (rule forEach_document_frame) (rule assms(2))
  have "f (snd (case forEach_document 0 docs s1 of
               (Inl e, s2) \<Rightarrow> (Inl e, s2)
             | (Inr u, s2) \<Rightarrow> (Inr (), logToSystem m info s2))) = f s1" for docs s1 m
    using fe [of 0 docs s1]
    by (auto simp: logToSystem_def assms split: prod.splits sum.splits)
  then show ?thesis
    by (simp add: loadDocuments_try_def fetch_def Let_def assms
          split: fetch_result.splits json_body.splits sum.splits jsval.splits)
qed

lemma loadDocuments_frame:
  assumes "\<And>s x. f (s\<lparr>requests := x\<rparr>) = f s"
    and "\<And>s x. f (s\<lparr>documentsList := x\<rparr>) = f s"
    and "\<And>s x. f (s\<lparr>logsContainer := x\<rparr>) = f s"
    and "\<And>s x. f (s\<lparr>console := x\<rparr>) = f s"
  shows "f (snd (loadDocuments r s)) = f s"
  using loadDocuments_try_frame [of f r s, OF assms(1-3)]
  by (auto simp: loadDocuments_def loadDocuments_catch_def logToSystem_def console_write_def
        assms split: prod.splits sum.splits)

lemma loadDocuments_returns: "fst (loadDocuments r s) = Inr ()"
  by (simp add: loadDocuments_def loadDocuments_catch_def split: prod.splits sum.splits)

lemma loadDocuments_try_requests:
  "requests (snd (loadDocuments_try r s)) =
     requests s @ [\<lparr>req_method = ''GET'', req_url = API_BASE_URL @ str ''/api/documents'',
                    req_body = NoBody\<rparr>]"
proof -
  let ?s = "fetch \<lparr>req_method = ''GET'', req_url = API_BASE_URL @ str ''/api/documents'',
                   req_body = NoBody\<rparr> s"
  have fe: "requests (snd (forEach_document i docs s1)) = requests s1" for i docs s1
    by (rule forEach_document_frame) simp
  have "requests (snd (case forEach_document 0 docs s1 of
               (Inl e, s2) \<Rightarrow> (Inl e, s2)
             | (Inr u, s2) \<Rightarrow> (Inr (), logToSystem m info s2))) = requests s1" for docs s1 m
    using fe [of 0 docs s1]
    by (auto simp: logToSystem_def split: prod.splits sum.splits)
  then show ?thesis
    by (simp add: loadDocuments_try_def fetch_def Let_def
          split: fetch_result.splits json_body.splits sum.splits jsval.splits)
qed

lemma loadDocuments_requests:
  "requests (snd (loadDocuments r s)) =
     requests s @ [\<lparr>req_method = ''GET'', req_url = API_BASE_URL @ str ''/api/documents'',
                    req_body = NoBody\<rparr>]"
  using loadDocuments_try_requests [of r s]
  by (auto simp: loadDocuments_def loadDocuments_catch_def logToSystem_def console_write_def
        split: prod.splits sum.splits)

lemma loadDocuments_try_Inl:
  assumes "loadDocuments_try r s = (Inl e, s1)"
  shows "logsContainer s1 = logsContainer s \<and> chatMessages s1 = chatMessages s
       \<and> console s1 = console s
       \<and> ((r = Rejected e \<or> (\<exists>status. r = Response status (NotJson e)))
             \<longrightarrow> documentsList s1 = documentsList s)
       \<and> ((\<exists>status data. r = Response status (Json data)
              \<and> (\<forall>docs. get_prop data ''documents'' \<noteq> Inr (JArr docs)))
             \<longrightarrow> documentsList s1 = [])"
proof -
  have l: "logsContainer (snd (forEach_document i docs s2)) = logsContainer s2" for i docs s2
    by (rule forEach_document_frame) simp
  have c: "chatMessages (snd (forEach_document i docs s2)) = chatMessages s2" for i docs s2
    by (rule forEach_document_frame) simp
  have k: "console (snd (forEach_document i docs s2)) = console s2" for i docs s2
    by (rule forEach_document_frame) simp
  have "forEach_document 0 docs s2 = (v, s3) \<Longrightarrow>
          logsContainer s3 = logsContainer s2 \<and> chatMessages s3 = chatMessages s2
          \<and> console s3 = console s2" for docs s2 v s3
    using l [of 0 docs s2] c [of 0 docs s2] k [of 0 docs s2] by simp
  with assms show ?thesis
    by (auto simp: loadDocuments_try_def fetch_def Let_def
          split: fetch_result.splits json_body.splits sum.splits jsval.splits prod.splits)
qed

lemma loadDocuments_rejected:
  "loadDocuments (Rejected e) s =
     (Inr (),
      s\<lparr>requests := requests s @
          [\<lparr>req_method = ''GET'', req_url = API_BASE_URL @ str ''/api/documents'',
            req_body = NoBody\<rparr>],
        console := console s @ [\<lparr>level = console_error, label = str ''Error loading documents:'',
                                  arg = ErrorArg e\<rparr>],
        logsContainer := logsContainer s @
          [\<lparr>log_class = error, textContent = str ''Error loading documents: '' @ message e\<rparr>]\<rparr>)"
  by (simp add: loadDocuments_def loadDocuments_try_def loadDocuments_catch_def fetch_def
        console_write_def logToSystem_def Let_def)

text \<open>
  C2, as the script has it. When the \<open>try\<close> block of \<open>loadDocuments\<close> throws,
  the operation still returns normally and appends exactly one log entry of type error
  with the text of the error. The document list keeps its entries when the request was
  rejected or the body was not JSON; it is empty when the body was parsed and holds no
  array of documents. The list is not emptied on every failure.
\<close>

theorem loadDocuments_failure:
  assumes "loadDocuments_try r s = (Inl e, s1)"
  shows "\<exists>s'. loadDocuments r s = (Inr (), s')
       \<and> logsContainer s' = logsContainer s @
           [\<lparr>log_class = error, textContent = str ''Error loading documents: '' @ message e\<rparr>]
       \<and> ((r = Rejected e \<or> (\<exists>status. r = Response status (NotJson e)))
             \<longrightarrow> documentsList s' = documentsList s)
       \<and> ((\<exists>status data. r = Response status (Json data)
              \<and> (\<forall>docs. get_prop data ''documents'' \<noteq> Inr (JArr docs)))
             \<longrightarrow> documentsList s' = [])"
  using assms loadDocuments_try_Inl [OF assms]
  by (simp add: loadDocuments_def loadDocuments_catch_def logToSystem_def console_write_def)

theorem loadDocuments_failure_witness:
  "loadDocuments_try (Rejected (TypeError (str ''Failed to fetch''))) page_with_document
     = (Inl (TypeError (str ''Failed to fetch'')),
        fetch \<lparr>req_method = ''GET'', req_url = API_BASE_URL @ str ''/api/documents'',
               req_body = NoBody\<rparr> page_with_document)
   \<and> (\<exists>s'. loadDocuments (Rejected (TypeError (str ''Failed to fetch''))) page_with_document
              = (Inr (), s')
          \<and> logsContainer s' = logsContainer page_with_document @
              [\<lparr>log_class = error,
                textContent = str ''Error loading documents: '' @ str ''Failed to fetch''\<rparr>]
          \<and> documentsList s' = documentsList page_with_document)"
proof -
  have t: "loadDocuments_try (Rejected (TypeError (str ''Failed to fetch''))) page_with_document
     = (Inl (TypeError (str ''Failed to fetch'')),
        fetch \<lparr>req_method = ''GET'', req_url = API_BASE_URL @ str ''/api/documents'',
               req_body = NoBody\<rparr> page_with_document)"
    by (simp add: loadDocuments_try_def Let_def)
  show ?thesis
    using t loadDocuments_failure [OF t] by auto
qed

lemma page_with_document_list:
  "documentsList page_with_document =
     [\<lparr>doc_number = 1, doc_en = str ''Library'', doc_ml = Some (str ''ml''),
       doc_manglish = None\<rparr>]"
  by (simp add: page_with_document_def document_response_def loadDocuments_def
        loadDocuments_try_def fetch_def Let_def logToSystem_def nth_opt_def trim_def
        is_whitespace_def str_def fresh_page_def)

text \<open>
  A page that shows one document, then a reload whose request is rejected: the document is
  still shown.
\<close>

theorem loadDocuments_failure_keeps_list_counterexample:
  "documentsList (snd (loadDocuments (Rejected (TypeError (str ''Failed to fetch'')))
      page_with_document)) \<noteq> []"
  by (simp add: loadDocuments_def loadDocuments_try_def loadDocuments_catch_def fetch_def
        Let_def logToSystem_def console_write_def page_with_document_list)

subsection \<open>Adding a document\<close>

lemma addDocument_try_Inr:
  assumes "addDocument_try english malayalam manglish r r_list s = (Inr b, s1)"
  shows "b \<and> requests s1 = requests s @
           [\<lparr>req_method = ''POST'', req_url = API_BASE_URL @ str ''/api/add-document'',
             req_body = JsonBody (JObj
               [(str ''english'', JStr english),
                (str ''malayalam'', JStr malayalam),
                (str ''manglish'', JStr (if manglish \<noteq> [] then manglish else []))])\<rparr>,
            \<lparr>req_method = ''GET'', req_url = API_BASE_URL @ str ''/api/documents'',
             req_body = NoBody\<rparr>]
         \<and> (\<exists>status data doc_id shown. r = Response status (Json data) \<and> ok status
               \<and> get_prop data ''id'' = Inr doc_id \<and> to_string doc_id = Inr shown)"
  using assms
  by (auto simp: addDocument_try_def Let_def addMessage_JStr loadDocuments_requests
        logToSystem_def fetch_def
      split: fetch_result.splits json_body.splits sum.splits if_splits)

lemma addDocument_try_Inl:
  assumes "addDocument_try english malayalam manglish r r_list s = (Inl e, s1)"
  shows "s1 = fetch \<lparr>req_method = ''POST'', req_url = API_BASE_URL @ str ''/api/add-document'',
             req_body = JsonBody (JObj
               [(str ''english'', JStr english),
                (str ''malayalam'', JStr malayalam),
                (str ''manglish'', JStr (if manglish \<noteq> [] then manglish else []))])\<rparr> s"
  using assms
  by (auto simp: addDocument_try_def Let_def addMessage_JStr
      split: fetch_result.splits json_body.splits sum.splits if_splits)

lemma addDocument_try_failure:
  assumes "\<forall>status body. r = Response status body \<longrightarrow> \<not> ok status"
  shows "addDocument_try english malayalam manglish r r_list s =
     (Inl (case r of Rejected e \<Rightarrow> e
           | Response status body \<Rightarrow> Error (str ''HTTP error! status: '' @ decimal status)),
      fetch \<lparr>req_method = ''POST'', req_url = API_BASE_URL @ str ''/api/add-document'',
             req_body = JsonBody (JObj
               [(str ''english'', JStr english),
                (str ''malayalam'', JStr malayalam),
                (str ''manglish'', JStr (if manglish \<noteq> [] then manglish else []))])\<rparr> s)"
  using assms by (cases r) (simp_all add: addDocument_try_def Let_def)

lemma addDocument_catch_eq:
  "addDocument_catch e s =
     (Inr False,
      s\<lparr>console := console s @ [\<lparr>level = console_error, label = str ''Error adding document:'',
                                  arg = ErrorArg e\<rparr>],
        chatMessages := chatMessages s @
          [\<lparr>className = System, senderName = str ''Assistant'',
            content = 0x274C # str '' Error adding document: '' @ message e,
            malayalam_text = matches_malayalam (0x274C # str '' Error adding document: '' @ message e)\<rparr>],
        logsContainer := logsContainer s @
          [\<lparr>log_class = error, textContent = str ''Error adding document: '' @ message e\<rparr>]\<rparr>)"
  by (simp add: addDocument_catch_def addMessage_JStr console_write_def logToSystem_def)

lemma addDocument_succeeds:
  assumes "ok status" and "get_prop data ''id'' = Inr doc_id" and "to_string doc_id = Inr shown"
  shows "fst (addDocument english malayalam manglish (Response status (Json data)) r_list s)
           = Inr True"
  using assms
  by (simp add: addDocument_def addDocument_try_def Let_def addMessage_JStr)

lemma addDocument_returns: "\<exists>b. fst (addDocument english malayalam manglish r r_list s) = Inr b"
  by (auto simp: addDocument_def addDocument_catch_eq split: prod.splits sum.splits)

lemma addDocument_failure_conv:
  assumes "\<forall>status body. r = Response status body \<longrightarrow> \<not> ok status"
  shows "\<exists>s' m l.
           addDocument english malayalam manglish r r_list s = (Inr False, s')
         \<and> chatMessages s' = chatMessages s @ [m]
         \<and> className m = System
         \<and> content m = 0x274C # str '' Error adding document: '' @
              (case r of Rejected e \<Rightarrow> message e
               | Response status body \<Rightarrow> str ''HTTP error! status: '' @ decimal status)
         \<and> logsContainer s' = logsContainer s @ [l]
         \<and> log_class l = error
         \<and> textContent l = str ''Error adding document: '' @
              (case r of Rejected e \<Rightarrow> message e
               | Response status body \<Rightarrow> str ''HTTP error! status: '' @ decimal status)"
  using assms
  by (cases r)
     (simp_all add: addDocument_def addDocument_try_failure addDocument_catch_eq fetch_def)

lemma addDocument_try_frame:
  assumes "\<And>s x. f (s\<lparr>requests := x\<rparr>) = f s"
    and "\<And>s x. f (s\<lparr>documentsList := x\<rparr>) = f s"
    and "\<And>s x. f (s\<lparr>logsContainer := x\<rparr>) = f s"
    and "\<And>s x. f (s\<lparr>console := x\<rparr>) = f s"
    and "\<And>s x. f (s\<lparr>chatMessages := x\<rparr>) = f s"
  shows "f (snd (addDocument_try english malayalam manglish r r_list s)) = f s"
proof -
  have "f (snd (loadDocuments r_list s1)) = f s1" for s1
    by (rule loadDocuments_frame) (rule assms)+
  then show ?thesis
    by (simp add: addDocument_try_def Let_def addMessage_JStr logToSystem_def fetch_def assms
        split: fetch_result.splits json_body.splits sum.splits)
qed

lemma addDocument_frame:
  assumes "\<And>s x. f (s\<lparr>requests := x\<rparr>) = f s"
    and "\<And>s x. f (s\<lparr>documentsList := x\<rparr>) = f s"
    and "\<And>s x. f (s\<lparr>logsContainer := x\<rparr>) = f s"
    and "\<And>s x. f (s\<lparr>console := x\<rparr>) = f s"
    and "\<And>s x. f (s\<lparr>chatMessages := x\<rparr>) = f s"
  shows "f (snd (addDocument english malayalam manglish r r_list s)) = f s"
  using addDocument_try_frame [of f english malayalam manglish r r_list s, OF assms]
  by (auto simp: addDocument_def addDocument_catch_eq assms split: prod.splits sum.splits)

text \<open>
  C7. When \<open>addDocument\<close> returns \<open>true\<close>, it has sent its own POST and after it
  exactly one GET of the document list, and nothing else.
\<close>

theorem addDocument_success_reloads_once:
  assumes "addDocument english malayalam manglish r r_list s = (Inr True, s')"
  shows "requests s' = requests s @
           [\<lparr>req_method = ''POST'', req_url = API_BASE_URL @ str ''/api/add-document'',
             req_body = JsonBody (JObj
               [(str ''english'', JStr english),
                (str ''malayalam'', JStr malayalam),
                (str ''manglish'', JStr (if manglish \<noteq> [] then manglish else []))])\<rparr>,
            \<lparr>req_method = ''GET'', req_url = API_BASE_URL @ str ''/api/documents'',
             req_body = NoBody\<rparr>]
       \<and> length (filter (\<lambda>q. req_url q = API_BASE_URL @ str ''/api/documents'')
                   (drop (length (requests s)) (requests s'))) = 1"
proof (cases "addDocument_try english malayalam manglish r r_list s")
  case (Pair v s1)
  show ?thesis
  proof (cases v)
    case (Inl e)
    with Pair assms show ?thesis
      by (simp add: addDocument_def addDocument_catch_eq)
  next
    case (Inr b)
    with Pair assms have "s1 = s'" by (simp add: addDocument_def)
    with Pair Inr addDocument_try_Inr [of english malayalam manglish r r_list s b s1]
    show ?thesis by (simp add: str_def)
  qed
qed

theorem addDocument_success_reloads_once_witness:
  "\<exists>s'. addDocument (str ''Library'') (str ''ml'') []
           (Response 200 (Json (JObj [(str ''id'', JNum (str ''7''))])))
           (Rejected (TypeError (str ''Failed to fetch''))) fresh_page = (Inr True, s')
       \<and> requests s' =
           [\<lparr>req_method = ''POST'', req_url = API_BASE_URL @ str ''/api/add-document'',
             req_body = JsonBody (JObj
               [(str ''english'', JStr (str ''Library'')),
                (str ''malayalam'', JStr (str ''ml'')),
                (str ''manglish'', JStr [])])\<rparr>,
            \<lparr>req_method = ''GET'', req_url = API_BASE_URL @ str ''/api/documents'',
             req_body = NoBody\<rparr>]"
proof -
  let ?r = "Response 200 (Json (JObj [(str ''id'', JNum (str ''7''))]))"
  let ?l = "Rejected (TypeError (str ''Failed to fetch''))"
  have "fst (addDocument (str ''Library'') (str ''ml'') [] ?r ?l fresh_page) = Inr True"
    by (rule addDocument_succeeds [of 200 _ "JNum (str ''7'')" "str ''7''"])
       (simp_all add: ok_def str_def)
  then obtain s' where
    a: "addDocument (str ''Library'') (str ''ml'') [] ?r ?l fresh_page = (Inr True, s')"
    by (cases "addDocument (str ''Library'') (str ''ml'') [] ?r ?l fresh_page") simp
  have "requests fresh_page = []"
    by (simp add: fresh_page_def)
  with a addDocument_success_reloads_once [OF a] show ?thesis by simp
qed

text \<open>
  C6. When the English or the Malayalam field of the form is empty after trimming, the
  submit handler only raises the alert: \<open>addDocument\<close> is not called and the list of
  requests sent is as before.
\<close>

theorem addDocumentForm_submit_blank:
  assumes "trim (englishText (form s)) = [] \<or> trim (malayalamText (form s)) = []"
  shows "addDocumentForm_submit r r_list s =
           (Inr (), s\<lparr>alerts := alerts s
              @ [str ''Please fill in at least English and Malayalam versions'']\<rparr>)
       \<and> requests (snd (addDocumentForm_submit r r_list s)) = requests s"
  using assms by (auto simp: addDocumentForm_submit_def Let_def)

theorem addDocumentForm_submit_blank_witness:
  "(trim (englishText (form (fresh_page\<lparr>form :=
        \<lparr>englishText = str ''Library'', malayalamText = str ''  '', manglishText = []\<rparr>\<rparr>))) = []
    \<or> trim (malayalamText (form (fresh_page\<lparr>form :=
        \<lparr>englishText = str ''Library'', malayalamText = str ''  '', manglishText = []\<rparr>\<rparr>))) = [])
   \<and> requests (snd (addDocumentForm_submit (Response 200 (Json JNull)) (Response 200 (Json JNull))
        (fresh_page\<lparr>form :=
          \<lparr>englishText = str ''Library'', malayalamText = str ''  '', manglishText = []\<rparr>\<rparr>))) = []"
proof -
  let ?s = "fresh_page\<lparr>form :=
        \<lparr>englishText = str ''Library'', malayalamText = str ''  '', manglishText = []\<rparr>\<rparr>"
  have h: "trim (englishText (form ?s)) = [] \<or> trim (malayalamText (form ?s)) = []"
    by (simp add: trim_def is_whitespace_def str_def)
  have "requests ?s = []"
    by (simp add: fresh_page_def)
  with h addDocumentForm_submit_blank [OF h, of "Response 200 (Json JNull)" "Response 200 (Json JNull)"]
  show ?thesis by simp
qed

text \<open>
  C9. A submission with both required fields filled in calls \<open>addDocument\<close>. When
  that returns \<open>true\<close> the form is reset, which empties the fields of a form whose
  markup gives them no default value; when it returns \<open>false\<close> the fields are as
  the user left them and a system message with the text of the error has been appended to
  the chat.
\<close>

theorem addDocumentForm_submit_outcome:
  assumes "trim (englishText (form s)) \<noteq> []"
    and "trim (malayalamText (form s)) \<noteq> []"
    and "form_default s = \<lparr>englishText = [], malayalamText = [], manglishText = []\<rparr>"
  shows "(\<exists>s1. addDocument (trim (englishText (form s))) (trim (malayalamText (form s)))
                 (trim (manglishText (form s))) r r_list s = (Inr True, s1)
            \<and> addDocumentForm_submit r r_list s = (Inr (), s1\<lparr>form := form_default s\<rparr>)
            \<and> form (snd (addDocumentForm_submit r r_list s))
                = \<lparr>englishText = [], malayalamText = [], manglishText = []\<rparr>)
       \<or> (\<exists>s1 e m. addDocument (trim (englishText (form s))) (trim (malayalamText (form s)))
                 (trim (manglishText (form s))) r r_list s = (Inr False, s1)
            \<and> addDocumentForm_submit r r_list s = (Inr (), s1)
            \<and> form s1 = form s
            \<and> chatMessages s1 = chatMessages s @ [m]
            \<and> className m = System
            \<and> content m = 0x274C # str '' Error adding document: '' @ message e)"
proof -
  let ?en = "trim (englishText (form s))"
  let ?ml = "trim (malayalamText (form s))"
  let ?mg = "trim (manglishText (form s))"
  have fd: "form_default (snd (addDocument ?en ?ml ?mg r r_list s)) = form_default s"
    by (rule addDocument_frame) simp_all
  have sub: "addDocumentForm_submit r r_list s =
     (case addDocument ?en ?ml ?mg r r_list s of
        (Inl e, s1) \<Rightarrow> (Inl e, s1)
      | (Inr success, s1) \<Rightarrow>
          if success then (Inr (), s1\<lparr>form := form_default s1\<rparr>) else (Inr (), s1))"
    using assms(1,2) by (simp add: addDocumentForm_submit_def Let_def)
  show ?thesis
  proof (cases "addDocument_try ?en ?ml ?mg r r_list s")
    case (Pair v s1)
    show ?thesis
    proof (cases v)
      case (Inl e)
      with Pair have s1: "s1 = fetch \<lparr>req_method = ''POST'',
             req_url = API_BASE_URL @ str ''/api/add-document'',
             req_body = JsonBody (JObj
               [(str ''english'', JStr ?en),
                (str ''malayalam'', JStr ?ml),
                (str ''manglish'', JStr (if ?mg \<noteq> [] then ?mg else []))])\<rparr> s"
        using addDocument_try_Inl by blast
      from Pair Inl have a: "addDocument ?en ?ml ?mg r r_list s = addDocument_catch e s1"
        by (simp add: addDocument_def)
      have "\<exists>s2 m. addDocument_catch e s1 = (Inr False, s2) \<and> form s2 = form s
              \<and> chatMessages s2 = chatMessages s @ [m] \<and> className m = System
              \<and> content m = 0x274C # str '' Error adding document: '' @ message e"
        by (simp add: addDocument_catch_eq s1 fetch_def)
      then obtain s2 m where "addDocument_catch e s1 = (Inr False, s2)" "form s2 = form s"
          "chatMessages s2 = chatMessages s @ [m]" "className m = System"
          "content m = 0x274C # str '' Error adding document: '' @ message e"
        by blast
      with a sub show ?thesis by auto
    next
      case (Inr b)
      with Pair have b using addDocument_try_Inr by blast
      with Pair Inr have a: "addDocument ?en ?ml ?mg r r_list s = (Inr True, s1)"
        by (simp add: addDocument_def)
      with fd have "form_default s1 = form_default s" by simp
      with a sub assms(3) show ?thesis by simp
    qed
  qed
qed

theorem addDocumentForm_submit_outcome_witness:
  "trim (englishText (form (fresh_page\<lparr>form :=
      \<lparr>englishText = str ''Library'', malayalamText = str ''ml'', manglishText = []\<rparr>\<rparr>))) \<noteq> []
   \<and> trim (malayalamText (form (fresh_page\<lparr>form :=
      \<lparr>englishText = str ''Library'', malayalamText = str ''ml'', manglishText = []\<rparr>\<rparr>))) \<noteq> []
   \<and> form (snd (addDocumentForm_submit
        (Response 200 (Json (JObj [(str ''id'', JNum (str ''7''))])))
        (Rejected (TypeError (str ''Failed to fetch'')))
        (fresh_page\<lparr>form :=
          \<lparr>englishText = str ''Library'', malayalamText = str ''ml'', manglishText = []\<rparr>\<rparr>)))
      = \<lparr>englishText = [], malayalamText = [], manglishText = []\<rparr>
   \<and> form (snd (addDocumentForm_submit
        (Response 500 (NotJson (SyntaxError (str ''Unexpected token''))))
        (Rejected (TypeError (str ''Failed to fetch'')))
        (fresh_page\<lparr>form :=
          \<lparr>englishText = str ''Library'', malayalamText = str ''ml'', manglishText = []\<rparr>\<rparr>)))
      = \<lparr>englishText = str ''Library'', malayalamText = str ''ml'', manglishText = []\<rparr>"
proof -
  let ?s = "fresh_page\<lparr>form :=
      \<lparr>englishText = str ''Library'', malayalamText = str ''ml'', manglishText = []\<rparr>\<rparr>"
  let ?good = "Response 200 (Json (JObj [(str ''id'', JNum (str ''7''))]))"
  let ?bad = "Response 500 (NotJson (SyntaxError (str ''Unexpected token'')))"
  let ?l = "Rejected (TypeError (str ''Failed to fetch''))"
  have en: "trim (englishText (form ?s)) \<noteq> []"
    by (simp add: trim_def is_whitespace_def str_def)
  have ml: "trim (malayalamText (form ?s)) \<noteq> []"
    by (simp add: trim_def is_whitespace_def str_def)
  have fd: "form_default ?s = \<lparr>englishText = [], malayalamText = [], manglishText = []\<rparr>"
    by (simp add: fresh_page_def)
  have f: "form ?s = \<lparr>englishText = str ''Library'', malayalamText = str ''ml'', manglishText = []\<rparr>"
    by simp
  have good: "fst (addDocument (trim (englishText (form ?s))) (trim (malayalamText (form ?s)))
                 (trim (manglishText (form ?s))) ?good ?l ?s) = Inr True"
    by (rule addDocument_succeeds [of 200 _ "JNum (str ''7'')" "str ''7''"])
       (simp_all add: ok_def str_def)
  have bad: "fst (addDocument (trim (englishText (form ?s))) (trim (malayalamText (form ?s)))
                 (trim (manglishText (form ?s))) ?bad ?l ?s) = Inr False"
  proof -
    have "\<forall>status body. ?bad = Response status body \<longrightarrow> \<not> ok status"
      by (simp add: ok_def)
    then obtain s' where
      "addDocument (trim (englishText (form ?s))) (trim (malayalamText (form ?s)))
         (trim (manglishText (form ?s))) ?bad ?l ?s = (Inr False, s')"
      using addDocument_failure_conv by blast
    then show ?thesis by simp
  qed
  have "form (snd (addDocumentForm_submit ?good ?l ?s))
          = \<lparr>englishText = [], malayalamText = [], manglishText = []\<rparr>"
    using addDocumentForm_submit_outcome [OF en ml fd, of ?good ?l] good by auto
  moreover have "form (snd (addDocumentForm_submit ?bad ?l ?s)) = form ?s"
    using addDocumentForm_submit_outcome [OF en ml fd, of ?bad ?l] bad by auto
  ultimately show ?thesis
    using en ml f by simp
qed

subsection \<open>Failures of the four operations\<close>

lemma sendAudioToBackend_catch_eq:
  "sendAudioToBackend_catch e s =
     (Inr (),
      s\<lparr>console := console s @ [\<lparr>level = console_error, label = str ''Error sending audio:'',
                                  arg = ErrorArg e\<rparr>],
        chatMessages := chatMessages s @
          [\<lparr>className = Bot, senderName = str ''Assistant'',
            content = str ''Error processing voice input'',
            malayalam_text = matches_malayalam (str ''Error processing voice input'')\<rparr>]\<rparr>)"
  by (simp add: sendAudioToBackend_catch_def addMessage_JStr console_write_def)

lemma sendAudioToBackend_returns: "fst (sendAudioToBackend audioBlob r s) = Inr ()"
  by (simp add: sendAudioToBackend_def sendAudioToBackend_catch_eq split: prod.splits sum.splits)

lemma sendAudioToBackend_rejected:
  "sendAudioToBackend audioBlob (Rejected e) s =
     (Inr (),
      s\<lparr>requests := requests s @
          [\<lparr>req_method = ''POST'', req_url = API_BASE_URL @ str ''/api/voice-query'',
            req_body = FormBody (str ''audio'') audioBlob (str ''recording.wav'')\<rparr>],
        console := console s @ [\<lparr>level = console_error, label = str ''Error sending audio:'',
                                  arg = ErrorArg e\<rparr>],
        chatMessages := chatMessages s @
          [\<lparr>className = Bot, senderName = str ''Assistant'',
            content = str ''Error processing voice input'',
            malayalam_text = matches_malayalam (str ''Error processing voice input'')\<rparr>]\<rparr>)"
  by (simp add: sendAudioToBackend_def sendAudioToBackend_try_def sendAudioToBackend_catch_eq
        fetch_def Let_def)

lemma sendMessage_failure_conv:
  assumes "trim (messageInput_value s) \<noteq> []"
    and "\<forall>status body. r = Response status body \<longrightarrow> \<not> ok status"
  shows "\<exists>s' m l.
           sendMessage r s = (Inr (), s')
         \<and> last (chatMessages s') = m \<and> length (chatMessages s') = length (chatMessages s) + 2
         \<and> className m = Bot
         \<and> content m = str ''Sorry, there was an error processing your request. Please try again.''
         \<and> logsContainer s' = logsContainer s @ [l]
         \<and> log_class l = error
         \<and> textContent l = str ''Error: '' @
              (case r of Rejected e \<Rightarrow> message e
               | Response status body \<Rightarrow> str ''HTTP error! status: '' @ decimal status)"
  using assms
  by (cases r)
     (simp_all add: sendMessage_def sendMessage_try_failure sendMessage_catch_eq
        addMessage_JStr fetch_def Let_def)

text \<open>
  C1, as the script has it. No exception leaves any of the four operations, whatever the
  network answers. When the request is rejected or answered with a status outside 200 to
  299, \<open>sendMessage\<close> appends the apology of the bot and one error log entry with the
  text of the error, and \<open>addDocument\<close> returns \<open>false\<close> after one system message
  and one error log entry, both with the text of the error. When the request is rejected,
  \<open>loadDocuments\<close> appends one error log entry with the text of the error and no chat
  message, and \<open>sendAudioToBackend\<close> appends the message of the bot
  \<open>Error processing voice input\<close> and no log entry.
\<close>

theorem api_failures_handled:
  "fst (sendMessage r s) = Inr ()
   \<and> fst (loadDocuments r s) = Inr ()
   \<and> (\<exists>b. fst (addDocument english malayalam manglish r r_list s) = Inr b)
   \<and> fst (sendAudioToBackend audioBlob r s) = Inr ()
   \<and> ((\<forall>status body. r = Response status body \<longrightarrow> \<not> ok status) \<longrightarrow>
        (trim (messageInput_value s) \<noteq> [] \<longrightarrow>
          (\<exists>s' m l.
             sendMessage r s = (Inr (), s')
           \<and> last (chatMessages s') = m
           \<and> length (chatMessages s') = length (chatMessages s) + 2
           \<and> className m = Bot
           \<and> content m = str ''Sorry, there was an error processing your request. Please try again.''
           \<and> logsContainer s' = logsContainer s @ [l]
           \<and> log_class l = error
           \<and> textContent l = str ''Error: '' @
                (case r of Rejected e \<Rightarrow> message e
                 | Response status body \<Rightarrow> str ''HTTP error! status: '' @ decimal status)))
      \<and> (\<exists>s' m l.
             addDocument english malayalam manglish r r_list s = (Inr False, s')
           \<and> chatMessages s' = chatMessages s @ [m]
           \<and> className m = System
           \<and> content m = 0x274C # str '' Error adding document: '' @
                (case r of Rejected e \<Rightarrow> message e
                 | Response status body \<Rightarrow> str ''HTTP error! status: '' @ decimal status)
           \<and> logsContainer s' = logsContainer s @ [l]
           \<and> log_class l = error
           \<and> textContent l = str ''Error adding document: '' @
                (case r of Rejected e \<Rightarrow> message e
                 | Response status body \<Rightarrow> str ''HTTP error! status: '' @ decimal status)))
   \<and> (\<forall>e. r = Rejected e \<longrightarrow>
         chatMessages (snd (loadDocuments r s)) = chatMessages s
       \<and> logsContainer (snd (loadDocuments r s)) = logsContainer s @
           [\<lparr>log_class = error, textContent = str ''Error loading documents: '' @ message e\<rparr>]
       \<and> logsContainer (snd (sendAudioToBackend audioBlob r s)) = logsContainer s
       \<and> (\<exists>m. chatMessages (snd (sendAudioToBackend audioBlob r s)) = chatMessages s @ [m]
             \<and> className m = Bot \<and> content m = str ''Error processing voice input''))"
proof -
  have "fst (sendMessage r s) = Inr ()"
    by (rule sendMessage_returns)
  moreover have "fst (loadDocuments r s) = Inr ()"
    by (rule loadDocuments_returns)
  moreover have "\<exists>b. fst (addDocument english malayalam manglish r r_list s) = Inr b"
    by (rule addDocument_returns)
  moreover have "fst (sendAudioToBackend audioBlob r s) = Inr ()"
    by (rule sendAudioToBackend_returns)
  moreover note sendMessage_failure_conv [of s r]
    addDocument_failure_conv [of r english malayalam manglish r_list s]
  moreover have "\<forall>e. r = Rejected e \<longrightarrow>
         chatMessages (snd (loadDocuments r s)) = chatMessages s
       \<and> logsContainer (snd (loadDocuments r s)) = logsContainer s @
           [\<lparr>log_class = error, textContent = str ''Error loading documents: '' @ message e\<rparr>]
       \<and> logsContainer (snd (sendAudioToBackend audioBlob r s)) = logsContainer s
       \<and> (\<exists>m. chatMessages (snd (sendAudioToBackend audioBlob r s)) = chatMessages s @ [m]
             \<and> className m = Bot \<and> content m = str ''Error processing voice input'')"
    by (simp add: loadDocuments_rejected sendAudioToBackend_rejected)
  ultimately show ?thesis by blast
qed

theorem api_failures_handled_witness:
  "(\<exists>s' l. sendMessage (Rejected (TypeError (str ''Failed to fetch'')))
              (fresh_page\<lparr>messageInput_value := str ''hi''\<rparr>) = (Inr (), s')
          \<and> logsContainer s' = [l] \<and> log_class l = error
          \<and> textContent l = str ''Error: '' @ str ''Failed to fetch'')
   \<and> (\<exists>s' m l. addDocument (str ''en'') (str ''ml'') []
                (Rejected (TypeError (str ''Failed to fetch'')))
                (Rejected (TypeError (str ''Failed to fetch'')))
                (fresh_page\<lparr>messageInput_value := str ''hi''\<rparr>) = (Inr False, s')
          \<and> chatMessages s' = [m] \<and> className m = System
          \<and> logsContainer s' = [l] \<and> log_class l = error)
   \<and> logsContainer (snd (loadDocuments (Rejected (TypeError (str ''Failed to fetch'')))
        (fresh_page\<lparr>messageInput_value := str ''hi''\<rparr>)))
      = [\<lparr>log_class = error,
          textContent = str ''Error loading documents: '' @ str ''Failed to fetch''\<rparr>]
   \<and> (\<exists>m. chatMessages (snd (sendAudioToBackend (Blob [] (str ''audio/wav''))
              (Rejected (TypeError (str ''Failed to fetch'')))
              (fresh_page\<lparr>messageInput_value := str ''hi''\<rparr>))) = [m]
          \<and> className m = Bot \<and> content m = str ''Error processing voice input'')"
proof -
  let ?r = "Rejected (TypeError (str ''Failed to fetch''))"
  let ?s = "fresh_page\<lparr>messageInput_value := str ''hi''\<rparr>"
  have t: "trim (messageInput_value ?s) \<noteq> []"
    by (simp add: trim_def is_whitespace_def str_def)
  have f: "\<forall>status body. ?r = Response status body \<longrightarrow> \<not> ok status"
    by simp
  have c: "chatMessages ?s = []" and l: "logsContainer ?s = []"
    by (simp_all add: fresh_page_def)
  note inst = api_failures_handled [of ?r ?s "str ''en''" "str ''ml''" "[]" ?r "Blob [] (str ''audio/wav'')"]
  from inst t f have "\<exists>s' m l. sendMessage ?r ?s = (Inr (), s')
           \<and> last (chatMessages s') = m
           \<and> length (chatMessages s') = length (chatMessages ?s) + 2
           \<and> className m = Bot
           \<and> content m = str ''Sorry, there was an error processing your request. Please try again.''
           \<and> logsContainer s' = logsContainer ?s @ [l]
           \<and> log_class l = error
           \<and> textContent l = str ''Error: '' @
                (case ?r of Rejected e \<Rightarrow> message e
                 | Response status body \<Rightarrow> str ''HTTP error! status: '' @ decimal status)"
    by blast
  then have 1: "\<exists>s' l. sendMessage ?r ?s = (Inr (), s')
          \<and> logsContainer s' = [l] \<and> log_class l = error
          \<and> textContent l = str ''Error: '' @ str ''Failed to fetch''"
    using l by auto
  from inst f have "\<exists>s' m l.
             addDocument (str ''en'') (str ''ml'') [] ?r ?r ?s = (Inr False, s')
           \<and> chatMessages s' = chatMessages ?s @ [m]
           \<and> className m = System
           \<and> content m = 0x274C # str '' Error adding document: '' @
                (case ?r of Rejected e \<Rightarrow> message e
                 | Response status body \<Rightarrow> str ''HTTP error! status: '' @ decimal status)
           \<and> logsContainer s' = logsContainer ?s @ [l]
           \<and> log_class l = error
           \<and> textContent l = str ''Error adding document: '' @
                (case ?r of Rejected e \<Rightarrow> message e
                 | Response status body \<Rightarrow> str ''HTTP error! status: '' @ decimal status)"
    by blast
  then have 2: "\<exists>s' m l. addDocument (str ''en'') (str ''ml'') [] ?r ?r ?s = (Inr False, s')
          \<and> chatMessages s' = [m] \<and> className m = System
          \<and> logsContainer s' = [l] \<and> log_class l = error"
    using c l by auto
  from inst have "chatMessages (snd (loadDocuments ?r ?s)) = chatMessages ?s
       \<and> logsContainer (snd (loadDocuments ?r ?s)) = logsContainer ?s @
           [\<lparr>log_class = error,
             textContent = str ''Error loading documents: '' @ message (TypeError (str ''Failed to fetch''))\<rparr>]
       \<and> logsContainer (snd (sendAudioToBackend (Blob [] (str ''audio/wav'')) ?r ?s)) = logsContainer ?s
       \<and> (\<exists>m. chatMessages (snd (sendAudioToBackend (Blob [] (str ''audio/wav'')) ?r ?s))
                 = chatMessages ?s @ [m]
             \<and> className m = Bot \<and> content m = str ''Error processing voice input'')"
    by blast
  then have 3: "logsContainer (snd (loadDocuments ?r ?s))
      = [\<lparr>log_class = error,
          textContent = str ''Error loading documents: '' @ str ''Failed to fetch''\<rparr>]
   \<and> (\<exists>m. chatMessages (snd (sendAudioToBackend (Blob [] (str ''audio/wav'')) ?r ?s)) = [m]
          \<and> className m = Bot \<and> content m = str ''Error processing voice input'')"
    using c l by simp
  from 1 2 3 show ?thesis by blast
qed

text \<open>
  The four operations do not share one rule: after a rejected request
  \<open>loadDocuments\<close> has shown the user nothing, and \<open>sendAudioToBackend\<close> has
  logged nothing.
\<close>

theorem api_failures_not_uniform_counterexample:
  "chatMessages (snd (loadDocuments (Rejected (TypeError (str ''Failed to fetch''))) fresh_page)) = []
   \<and> logsContainer (snd (sendAudioToBackend (Blob [] (str ''audio/wav''))
        (Rejected (TypeError (str ''Failed to fetch''))) fresh_page)) = []"
  by (simp add: loadDocuments_rejected sendAudioToBackend_rejected fresh_page_def)

subsection \<open>Voice sessions\<close>

lemma speakText_frame:
  assumes "\<And>s x. f (s\<lparr>utterances := x\<rparr>) = f s"
  shows "f (snd (speakText t l s)) = f s"
  by (simp add: speakText_def Let_def assms split: sum.splits)

lemma play_or_speak_frame:
  assumes "\<And>s x. f (s\<lparr>responseAudio_src := x\<rparr>) = f s"
    and "\<And>s x. f (s\<lparr>responseAudio_plays := x\<rparr>) = f s"
    and "\<And>s x. f (s\<lparr>utterances := x\<rparr>) = f s"
  shows "f (snd (play_or_speak data answer s)) = f s"
proof -
  have "f (snd (speakText t l s1)) = f s1" for t l s1
    by (rule speakText_frame) (rule assms(3))
  then show ?thesis
    by (simp add: play_or_speak_def assms split: sum.splits)
qed

lemma sendMessage_try_frame:
  assumes "\<And>s x. f (s\<lparr>chatMessages := x\<rparr>) = f s"
    and "\<And>s x. f (s\<lparr>requests := x\<rparr>) = f s"
    and "\<And>s x. f (s\<lparr>responseAudio_src := x\<rparr>) = f s"
    and "\<And>s x. f (s\<lparr>responseAudio_plays := x\<rparr>) = f s"
    and "\<And>s x. f (s\<lparr>utterances := x\<rparr>) = f s"
    and "\<And>s x. f (s\<lparr>logsContainer := x\<rparr>) = f s"
  shows "f (snd (sendMessage_try text r s)) = f s"
proof -
  have am: "f (snd (addMessage sd v s1)) = f s1" for sd v s1
    by (rule addMessage_frame) (rule assms(1))
  have ps: "f (snd (play_or_speak d a s1)) = f s1" for d a s1
    by (rule play_or_speak_frame) (rule assms(3-5))+
  have am': "addMessage sd v s1 = (x, s2) \<Longrightarrow> f s2 = f s1" for sd v s1 x s2
    using am [of sd v s1] by simp
  have ps': "play_or_speak d a s1 = (x, s2) \<Longrightarrow> f s2 = f s1" for d a s1 x s2
    using ps [of d a s1] by simp
  show ?thesis
    by (auto simp: sendMessage_try_def fetch_def Let_def logToSystem_def assms
          dest!: am' ps'
          split: fetch_result.splits json_body.splits sum.splits prod.splits)
qed

lemma sendMessage_frame:
  assumes "\<And>s x. f (s\<lparr>chatMessages := x\<rparr>) = f s"
    and "\<And>s x. f (s\<lparr>requests := x\<rparr>) = f s"
    and "\<And>s x. f (s\<lparr>responseAudio_src := x\<rparr>) = f s"
    and "\<And>s x. f (s\<lparr>responseAudio_plays := x\<rparr>) = f s"
    and "\<And>s x. f (s\<lparr>utterances := x\<rparr>) = f s"
    and "\<And>s x. f (s\<lparr>logsContainer := x\<rparr>) = f s"
    and "\<And>s x. f (s\<lparr>console := x\<rparr>) = f s"
    and "\<And>s x. f (s\<lparr>messageInput_value := x\<rparr>) = f s"
  shows "f (snd (sendMessage r s)) = f s"
proof -
  have "f (snd (sendMessage_try tx r s1)) = f s1" for tx s1
    by (rule sendMessage_try_frame) (rule assms)+
  then have "sendMessage_try tx r s1 = (x, s2) \<Longrightarrow> f s2 = f s1" for tx s1 x s2
    by (metis snd_conv)
  then show ?thesis
    by (auto simp: sendMessage_def Let_def addMessage_JStr sendMessage_catch_eq assms
          split: prod.splits sum.splits)
qed

lemma addDocumentForm_submit_frame:
  assumes "\<And>s x. f (s\<lparr>requests := x\<rparr>) = f s"
    and "\<And>s x. f (s\<lparr>documentsList := x\<rparr>) = f s"
    and "\<And>s x. f (s\<lparr>logsContainer := x\<rparr>) = f s"
    and "\<And>s x. f (s\<lparr>console := x\<rparr>) = f s"
    and "\<And>s x. f (s\<lparr>chatMessages := x\<rparr>) = f s"
    and "\<And>s x. f (s\<lparr>alerts := x\<rparr>) = f s"
    and "\<And>s x. f (s\<lparr>form := x\<rparr>) = f s"
  shows "f (snd (addDocumentForm_submit r r_list s)) = f s"
proof -
  have "f (snd (addDocument en ml mg r r_list s)) = f s" for en ml mg
    by (rule addDocument_frame) (rule assms)+
  then have "addDocument en ml mg r r_list s = (x, s2) \<Longrightarrow> f s2 = f s" for en ml mg x s2
    by (metis snd_conv)
  then show ?thesis
    by (auto simp: addDocumentForm_submit_def Let_def assms split: prod.splits sum.splits)
qed

lemma sendMessage_voice:
  "recorders (snd (sendMessage r s)) = recorders s
   \<and> isRecording (snd (sendMessage r s)) = isRecording s
   \<and> recognition (snd (sendMessage r s)) = recognition s"
  using sendMessage_frame [of "\<lambda>s. (recorders s, isRecording s, recognition s)" r s]
  by simp

lemma loadDocuments_voice:
  "recorders (snd (loadDocuments r s)) = recorders s
   \<and> isRecording (snd (loadDocuments r s)) = isRecording s
   \<and> recognition (snd (loadDocuments r s)) = recognition s"
  using loadDocuments_frame [of "\<lambda>s. (recorders s, isRecording s, recognition s)" r s]
  by simp

lemma addDocumentForm_submit_voice:
  "recorders (snd (addDocumentForm_submit r r_list s)) = recorders s
   \<and> isRecording (snd (addDocumentForm_submit r r_list s)) = isRecording s
   \<and> recognition (snd (addDocumentForm_submit r r_list s)) = recognition s"
  using addDocumentForm_submit_frame
          [of "\<lambda>s. (recorders s, isRecording s, recognition s)" r r_list s]
  by simp

lemma langButton_click_voice:
  "recorders (snd (langButton_click btn s)) = recorders s
   \<and> isRecording (snd (langButton_click btn s)) = isRecording s
   \<and> map_option phase (recognition (snd (langButton_click btn s)))
       = map_option phase (recognition s)"
  by (simp add: langButton_click_def updateRecognitionLanguage_def addMessage_JStr Let_def
        split: option.splits)

lemma backend_probe_voice:
  "recorders (backend_probe r s) = recorders s
   \<and> isRecording (backend_probe r s) = isRecording s
   \<and> recognition (backend_probe r s) = recognition s"
  by (simp add: backend_probe_def fetch_def logToSystem_def Let_def
        split: fetch_result.splits json_body.splits sum.splits)

lemma DOMContentLoaded_voice:
  assumes "script_loaded s0"
  shows "recorders (DOMContentLoaded r_docs r_probe s0) = []
       \<and> \<not> isRecording (DOMContentLoaded r_docs r_probe s0)
       \<and> map_option phase (recognition (DOMContentLoaded r_docs r_probe s0)) \<noteq> Some Listening"
proof -
  have "recorders (initSpeechRecognition s0) = []
      \<and> \<not> isRecording (initSpeechRecognition s0)
      \<and> map_option phase (recognition (initSpeechRecognition s0)) \<noteq> Some Listening"
    using assms
    by (simp add: script_loaded_def initSpeechRecognition_def updateRecognitionLanguage_def
          new_webkitSpeechRecognition_def console_write_def)
  then show ?thesis
    by (simp add: DOMContentLoaded_def backend_probe_voice loadDocuments_voice)
qed

lemma toggleVoiceRecording_voice:
  assumes "isRecording s \<longleftrightarrow> map_option phase (recognition s) = Some Listening"
  shows "recorders (snd (toggleVoiceRecording s)) = recorders s
       \<and> isRecording (snd (toggleVoiceRecording s)) = isRecording s
       \<and> (map_option phase (recognition (snd (toggleVoiceRecording s))) = Some Listening
            \<longleftrightarrow> map_option phase (recognition s) = Some Listening)"
  using assms
  by (auto simp: toggleVoiceRecording_def addMessage_JStr recognition_start_def
        recognition_stop_def split: option.splits)

lemma dispatch_voice:
  assumes "dispatch ev s = Some s'"
    and "recorders s = []"
    and "isRecording s \<longleftrightarrow> map_option phase (recognition s) = Some Listening"
  shows "recorders s' = []
       \<and> (isRecording s' \<longleftrightarrow> map_option phase (recognition s') = Some Listening)"
proof (cases ev)
  case (Input_messageInput v)
  with assms show ?thesis by auto
next
  case (Input_form f)
  with assms show ?thesis by auto
next
  case (Click_sendBtn r)
  with assms sendMessage_voice [of r s] show ?thesis by auto
next
  case (Keypress_messageInput key shiftKey r)
  with assms sendMessage_voice [of r s] show ?thesis by (auto split: if_splits)
next
  case Click_voiceBtn
  with assms toggleVoiceRecording_voice [of s] show ?thesis by auto
next
  case (Click_exampleButton question r)
  with assms sendMessage_voice [of r "s\<lparr>messageInput_value := question\<rparr>"]
  show ?thesis by auto
next
  case (Click_langButton btn)
  with assms langButton_click_voice [of btn s] show ?thesis by auto
next
  case (Click_tab tabId r)
  with assms loadDocuments_voice [of r s] show ?thesis by (auto split: if_splits)
next
  case (Submit_addDocumentForm r r_list)
  with assms addDocumentForm_submit_voice [of r r_list s] show ?thesis by auto
next
  case Click_privacyLink
  with assms show ?thesis by (auto simp: addMessage_JStr)
next
  case Click_aboutLink
  with assms show ?thesis by (auto simp: addMessage_JStr)
next
  case (Click_docsLink r)
  with assms loadDocuments_voice [of r s] show ?thesis by auto
next
  case (Timeout_sendMessage r)
  with assms sendMessage_voice [of r "s\<lparr>timers := timers s - 1\<rparr>"]
  show ?thesis by (auto split: if_splits)
next
  case Recognition_start
  with assms show ?thesis
    by (auto simp: recognition_onstart_def addMessage_JStr split: option.splits if_splits)
next
  case (Recognition_result transcript)
  with assms show ?thesis
    by (auto simp: recognition_onresult_def split: option.splits if_splits)
next
  case (Recognition_error code)
  with assms show ?thesis
    by (auto simp: recognition_onerror_def addMessage_JStr console_write_def
          split: option.splits if_splits)
next
  case Recognition_end
  with assms show ?thesis
    by (auto simp: recognition_onend_def split: option.splits if_splits)
qed

lemma run_voice:
  assumes "run evs s = Some s'"
    and "recorders s = []"
    and "isRecording s \<longleftrightarrow> map_option phase (recognition s) = Some Listening"
  shows "recorders s' = []
       \<and> (isRecording s' \<longleftrightarrow> map_option phase (recognition s') = Some Listening)"
  using assms
proof (induction evs arbitrary: s)
  case Nil
  then show ?case by simp
next
  case (Cons ev evs)
  from Cons.prems(1) obtain s1 where d: "dispatch ev s = Some s1" and r: "run evs s1 = Some s'"
    by (auto split: option.splits)
  from dispatch_voice [OF d Cons.prems(2,3)] Cons.IH [OF r] show ?case
    by blast
qed

lemma loaded_run_voice:
  assumes "script_loaded s0"
    and "run evs (DOMContentLoaded r_docs r_probe s0) = Some s"
  shows "recorders s = []
       \<and> (isRecording s \<longleftrightarrow> map_option phase (recognition s) = Some Listening)"
  using run_voice [OF assms(2)] DOMContentLoaded_voice [OF assms(1), of r_docs r_probe]
  by blast

text \<open>
  The page only ever starts the recogniser: no handler calls \<open>startMediaRecording\<close>.
  In every state that a run of events leads to from the loaded page no recorder exists,
  at most one voice session is under way, and \<open>isRecording\<close> is set exactly while
  the recogniser listens. There a click on the voice button never begins a second
  session: when \<open>isRecording\<close> is set it asks the recogniser to stop; when a session
  is under way and \<open>isRecording\<close> is not yet set, the recogniser has been started and
  has not fired \<open>start\<close>, and it refuses the call with InvalidStateError, the state
  staying as it was; only when no session is under way does the click start one.
\<close>

lemma toggleVoiceRecording_guarded:
  assumes "script_loaded s0"
    and "run evs (DOMContentLoaded r_docs r_probe s0) = Some s"
  shows "capture_sessions s = 0
       \<and> active_sessions s \<le> 1
       \<and> (isRecording s \<longrightarrow> active_sessions s = 1)
       \<and> (isRecording s \<longrightarrow>
            (\<exists>r. recognition s = Some r \<and> phase r = Listening
               \<and> toggleVoiceRecording s
                   = (Inr (), s\<lparr>recognition := Some (r\<lparr>stop_requested := True\<rparr>)\<rparr>)
               \<and> active_sessions (snd (toggleVoiceRecording s)) = 1))
       \<and> (active_sessions s = 1 \<and> \<not> isRecording s \<longrightarrow>
            (\<exists>r. recognition s = Some r \<and> phase r = Starting
               \<and> toggleVoiceRecording s
                   = (Inl (DOMException (str ''InvalidStateError'')
                             (str ''recognition has already started'')), s)))
       \<and> (active_sessions s = 0 \<longrightarrow> active_sessions (snd (toggleVoiceRecording s)) \<le> 1)"
proof -
  have inv: "recorders s = []"
      "isRecording s \<longleftrightarrow> map_option phase (recognition s) = Some Listening"
    using loaded_run_voice [OF assms] by simp_all
  have "capture_sessions s = 0"
    using inv(1) by (simp add: capture_sessions_def)
  moreover have "active_sessions s \<le> 1"
    using inv by (simp add: active_sessions_def capture_sessions_def recognition_sessions_def
          split: option.splits)
  moreover have "isRecording s \<longrightarrow> active_sessions s = 1"
    using inv by (auto simp: active_sessions_def capture_sessions_def recognition_sessions_def
          split: option.splits)
  moreover have "isRecording s \<longrightarrow>
            (\<exists>r. recognition s = Some r \<and> phase r = Listening
               \<and> toggleVoiceRecording s
                   = (Inr (), s\<lparr>recognition := Some (r\<lparr>stop_requested := True\<rparr>)\<rparr>)
               \<and> active_sessions (snd (toggleVoiceRecording s)) = 1)"
    using inv
    by (auto simp: active_sessions_def capture_sessions_def recognition_sessions_def
          toggleVoiceRecording_def recognition_stop_def
          split: option.splits)
  moreover have "active_sessions s = 1 \<and> \<not> isRecording s \<longrightarrow>
            (\<exists>r. recognition s = Some r \<and> phase r = Starting
               \<and> toggleVoiceRecording s
                   = (Inl (DOMException (str ''InvalidStateError'')
                             (str ''recognition has already started'')), s))"
  proof
    assume a: "active_sessions s = 1 \<and> \<not> isRecording s"
    with inv obtain r where r: "recognition s = Some r" "phase r \<noteq> Idle" "phase r \<noteq> Listening"
      by (auto simp: active_sessions_def capture_sessions_def recognition_sessions_def
            split: option.splits if_splits)
    then have "phase r = Starting"
      by (cases "phase r") simp_all
    with r a show "\<exists>r. recognition s = Some r \<and> phase r = Starting
               \<and> toggleVoiceRecording s
                   = (Inl (DOMException (str ''InvalidStateError'')
                             (str ''recognition has already started'')), s)"
      by (simp add: toggleVoiceRecording_def recognition_start_def)
  qed
  moreover have "active_sessions s = 0 \<longrightarrow> active_sessions (snd (toggleVoiceRecording s)) \<le> 1"
  proof -
    have "recorders (snd (toggleVoiceRecording s)) = []"
      using toggleVoiceRecording_voice [OF inv(2)] inv(1) by simp
    then show ?thesis
      by (simp add: active_sessions_def capture_sessions_def recognition_sessions_def
            split: option.splits)
  qed
  ultimately show ?thesis by blast
qed

text \<open>
  On the listening page \<open>isRecording\<close> is set and one session is under way; a click
  on the voice button there asks the recogniser to stop and starts nothing.
\<close>

lemma listening_page_reached:
  "run [Click_voiceBtn, Recognition_start]
     (DOMContentLoaded (Rejected (TypeError (str ''Failed to fetch'')))
        (Rejected (TypeError (str ''Failed to fetch''))) fresh_page) = Some listening_page
   \<and> recognition listening_page
       = Some (new_webkitSpeechRecognition\<lparr>lang := str ''en-US'', phase := Listening\<rparr>)
   \<and> isRecording listening_page \<and> recorders listening_page = []"
proof -
  let ?r = "Rejected (TypeError (str ''Failed to fetch''))"
  let ?s0 = "DOMContentLoaded ?r ?r fresh_page"
  have v0: "recognition ?s0 = Some (new_webkitSpeechRecognition\<lparr>lang := str ''en-US''\<rparr>)"
      "\<not> isRecording ?s0" "recorders ?s0 = []"
    by (simp_all add: DOMContentLoaded_def backend_probe_voice loadDocuments_voice
          initSpeechRecognition_def updateRecognitionLanguage_def fresh_page_def str_def)
  have t: "toggleVoiceRecording ?s0
             = (Inr (), ?s0\<lparr>recognition :=
                  Some (new_webkitSpeechRecognition\<lparr>lang := str ''en-US'', phase := Starting\<rparr>)\<rparr>)"
    using v0
    by (simp add: toggleVoiceRecording_def recognition_start_def new_webkitSpeechRecognition_def)
  have "\<exists>s. run [Click_voiceBtn, Recognition_start] ?s0 = Some s
          \<and> recognition s
              = Some (new_webkitSpeechRecognition\<lparr>lang := str ''en-US'', phase := Listening\<rparr>)
          \<and> isRecording s \<and> recorders s = []"
    using v0
    by (simp add: t recognition_onstart_def addMessage_JStr new_webkitSpeechRecognition_def)
  then show ?thesis
    by (auto simp: listening_page_def)
qed

lemma toggleVoiceRecording_guarded_on_listening_page:
  "script_loaded fresh_page
   \<and> isRecording listening_page
   \<and> active_sessions listening_page = 1
   \<and> toggleVoiceRecording listening_page
       = (Inr (), listening_page\<lparr>recognition :=
            Some (new_webkitSpeechRecognition
                    \<lparr>lang := str ''en-US'', phase := Listening, stop_requested := True\<rparr>)\<rparr>)
   \<and> active_sessions (snd (toggleVoiceRecording listening_page)) = 1"
proof -
  have l: "script_loaded fresh_page"
    by (simp add: script_loaded_def fresh_page_def)
  note g = toggleVoiceRecording_guarded [OF l conjunct1 [OF listening_page_reached]]
  have i: "isRecording listening_page"
    using listening_page_reached by simp
  with g have a: "active_sessions listening_page = 1"
    by blast
  from g i obtain r where "recognition listening_page = Some r"
      "toggleVoiceRecording listening_page
         = (Inr (), listening_page\<lparr>recognition := Some (r\<lparr>stop_requested := True\<rparr>)\<rparr>)"
      "active_sessions (snd (toggleVoiceRecording listening_page)) = 1"
    by blast
  with listening_page_reached l i a show ?thesis
    by simp
qed

text \<open>
  C3. At most one recognition or capture session is to be under way, and a start during a
  session is to be refused or to do nothing. \<open>toggleVoiceRecording\<close> keeps to this,
  as shown above; \<open>startMediaRecording\<close> sets \<open>isRecording\<close> but never reads it.
  Called on the listening page, where \<open>isRecording\<close> is set and the recogniser's
  session is under way, with the microphone granted, it returns normally and has started
  a recorder: two sessions are under way. Called again during its own capture it starts
  a second recorder beside the first.
\<close>

theorem startMediaRecording_ignores_isRecording:
  "isRecording listening_page
   \<and> active_sessions listening_page = 1
   \<and> fst (startMediaRecording Granted listening_page) = Inr ()
   \<and> active_sessions (snd (startMediaRecording Granted listening_page)) = 2
   \<and> isRecording (snd (startMediaRecording Granted fresh_page))
   \<and> active_sessions (snd (startMediaRecording Granted fresh_page)) = 1
   \<and> fst (startMediaRecording Granted (snd (startMediaRecording Granted fresh_page))) = Inr ()
   \<and> active_sessions
       (snd (startMediaRecording Granted (snd (startMediaRecording Granted fresh_page)))) = 2"
proof -
  have "isRecording listening_page \<and> active_sessions listening_page = 1
      \<and> fst (startMediaRecording Granted listening_page) = Inr ()
      \<and> active_sessions (snd (startMediaRecording Granted listening_page)) = 2"
    using listening_page_reached
    by (simp add: startMediaRecording_def active_sessions_def capture_sessions_def
          recognition_sessions_def new_webkitSpeechRecognition_def)
  moreover have "isRecording (snd (startMediaRecording Granted fresh_page))
      \<and> active_sessions (snd (startMediaRecording Granted fresh_page)) = 1
      \<and> fst (startMediaRecording Granted (snd (startMediaRecording Granted fresh_page))) = Inr ()
      \<and> active_sessions
          (snd (startMediaRecording Granted (snd (startMediaRecording Granted fresh_page)))) = 2"
    by (simp add: startMediaRecording_def active_sessions_def capture_sessions_def
          recognition_sessions_def fresh_page_def)
  ultimately show ?thesis by blast
qed

end
